theory Spec2Isabelle
  imports Complex_Main "HOL-Library.Multiset"
begin

section \<open>Python values and failures\<close>

text \<open>
  The analysis pipeline of the repository works on Python floats. They are modelled as
  \<^typ>\<open>real\<close>: every arithmetic step is exact, so the model describes the
  arithmetic the code writes down and not its binary rounding. Where the binary value
  decides a result, in \<open>round(x, 2)\<close>, the operation is a parameter of the model (see
  \<open>cent_rounding\<close> below). Python integers are
  \<^typ>\<open>int\<close> or, for lengths, periods and loop counters, \<^typ>\<open>nat\<close>.

  An exception that the code can raise is a value of \<open>py_error\<close>; a function that
  can raise returns \<open>py_error + 'a\<close>.
\<close>

datatype py_error = IndexError | ZeroDivisionError | ValueError | KeyError

definition bind_err :: "py_error + 'a \<Rightarrow> ('a \<Rightarrow> py_error + 'b) \<Rightarrow> py_error + 'b" where
  "bind_err m f = (case m of Inl e \<Rightarrow> Inl e | Inr x \<Rightarrow> f x)"

text \<open>\<open>xs[i]\<close> for a Python list: a negative index counts from the end, an index out
  of range raises \<open>IndexError\<close>.\<close>

definition py_get :: "'a list \<Rightarrow> int \<Rightarrow> py_error + 'a" where
  "py_get xs i =
     (if 0 \<le> i \<and> i < int (length xs) then Inr (xs ! nat i)
      else if i < 0 \<and> - int (length xs) \<le> i then Inr (xs ! nat (int (length xs) + i))
      else Inl IndexError)"

text \<open>\<open>xs[a:b]\<close> for \<open>0 \<le> a\<close>, \<open>0 \<le> b\<close>: slices never raise, they are cut at
  the end of the list.\<close>

definition py_slice :: "'a list \<Rightarrow> nat \<Rightarrow> nat \<Rightarrow> 'a list" where
  "py_slice xs a b = take (b - a) (drop a xs)"

text \<open>\<open>xs[-k:]\<close> for \<open>k > 0\<close>: the last \<open>k\<close> elements, or the whole list when it is
  shorter.\<close>

definition py_last_n :: "nat \<Rightarrow> 'a list \<Rightarrow> 'a list" where
  "py_last_n k xs = drop (length xs - k) xs"

text \<open>\<open>numpy.mean\<close>. On an empty slice numpy warns and returns \<open>nan\<close>; here the
  value is then \<open>0 / 0 = 0\<close>. No claim below rests on the mean of an empty slice.\<close>

definition np_mean :: "real list \<Rightarrow> real" where
  "np_mean xs = sum_list xs / real (length xs)"

text \<open>\<open>numpy.std\<close>: the population standard deviation.\<close>

definition np_std :: "real list \<Rightarrow> real" where
  "np_std xs = sqrt (np_mean (map (\<lambda>x. (x - np_mean xs)\<^sup>2) xs))"

text \<open>\<open>max(xs)\<close> and \<open>min(xs)\<close> of a list raise \<open>ValueError\<close> on an empty list.\<close>

definition py_max :: "real list \<Rightarrow> py_error + real" where
  "py_max xs = (case xs of [] \<Rightarrow> Inl ValueError | y # ys \<Rightarrow> Inr (fold max ys y))"

definition py_min :: "real list \<Rightarrow> py_error + real" where
  "py_min xs = (case xs of [] \<Rightarrow> Inl ValueError | y # ys \<Rightarrow> Inr (fold min ys y))"

text \<open>\<open>round(x, 2)\<close> on a float returns a multiple of \<open>1/100\<close> nearest to \<open>x\<close>.
  Which neighbour it returns when \<open>x\<close> lies halfway between two of them (or within the
  float's error of halfway) depends on the binary representation of \<open>x\<close>, which a real
  number does not carry. The rounding is therefore a parameter \<open>round2\<close> of every
  function that rounds, and \<open>cent_rounding round2\<close> says what is known of it: each
  result is a multiple of \<open>1/100\<close> at distance at most \<open>1/200\<close> from the argument.\<close>

definition nearest_cent :: "real \<Rightarrow> real \<Rightarrow> bool" where
  "nearest_cent r x = (r * 100 = real_of_int \<lfloor>r * 100\<rfloor> \<and> \<bar>r - x\<bar> \<le> 1 / 200)"

definition cent_rounding :: "(real \<Rightarrow> real) \<Rightarrow> bool" where
  "cent_rounding round2 = (\<forall>x. nearest_cent (round2 x) x)"

text \<open>One such rounding, used where a statement is evaluated at a concrete input: a
  tie goes to the even neighbour.\<close>

definition py_round2 :: "real \<Rightarrow> real" where
  "py_round2 x =
     (let y = x * 100; f = \<lfloor>y\<rfloor>; r = y - real_of_int f
      in real_of_int (if r < 1/2 then f else if 1/2 < r then f + 1
                      else if even f then f else f + 1) / 100)"

section \<open>indicators.py: TechnicalIndicators\<close>

subsection \<open>calculate\_ema\<close>

text \<open>The loop \<open>for i in range(period, len(prices))\<close> appends
  \<open>(prices[i] - ema[-1]) * multiplier + ema[-1]\<close>; \<open>prev\<close> is \<open>ema[-1]\<close>.\<close>

fun ema_loop :: "real \<Rightarrow> real \<Rightarrow> real list \<Rightarrow> real list" where
  "ema_loop multiplier prev [] = []"
| "ema_loop multiplier prev (p # ps) =
     (let ema_value = (p - prev) * multiplier + prev
      in ema_value # ema_loop multiplier ema_value ps)"

definition calculate_ema :: "real list \<Rightarrow> nat \<Rightarrow> real list" where
  "calculate_ema prices period =
     (let multiplier = 2 / (real period + 1);
          sma = np_mean (take period prices)
      in sma # ema_loop multiplier sma (drop period prices))"

subsection \<open>calculate\_macd\<close>

record macd_result =
  DIF :: "real list"
  DEA :: "real list"
  MACD :: "real list"

text \<open>\<open>for i in range(len(ema_slow)): dif.append(ema_fast[i + (slow - fast)] - ema_slow[i])\<close>,
  the list of indices still to visit as the argument.\<close>

fun dif_loop :: "real list \<Rightarrow> real list \<Rightarrow> int \<Rightarrow> nat list \<Rightarrow> py_error + real list" where
  "dif_loop ema_fast ema_slow off [] = Inr []"
| "dif_loop ema_fast ema_slow off (i # is) =
     bind_err (py_get ema_fast (int i + off)) (\<lambda>a.
     bind_err (py_get ema_slow (int i)) (\<lambda>b.
     bind_err (dif_loop ema_fast ema_slow off is) (\<lambda>rest.
     Inr ((a - b) # rest))))"

text \<open>\<open>for i in range(len(dea)): macd.append((dif[i + (signal - 1)] - dea[i]) * 2)\<close>.\<close>

fun macd_loop :: "real list \<Rightarrow> real list \<Rightarrow> int \<Rightarrow> nat list \<Rightarrow> py_error + real list" where
  "macd_loop dif dea off [] = Inr []"
| "macd_loop dif dea off (i # is) =
     bind_err (py_get dif (int i + off)) (\<lambda>a.
     bind_err (py_get dea (int i)) (\<lambda>b.
     bind_err (macd_loop dif dea off is) (\<lambda>rest.
     Inr (((a - b) * 2) # rest))))"

definition calculate_macd :: "real list \<Rightarrow> nat \<Rightarrow> nat \<Rightarrow> nat \<Rightarrow> py_error + macd_result" where
  "calculate_macd prices fast slow signal =
     (if length prices < slow then Inr \<lparr>DIF = [], DEA = [], MACD = []\<rparr>
      else
        let ema_fast = calculate_ema prices fast;
            ema_slow = calculate_ema prices slow
        in bind_err (dif_loop ema_fast ema_slow (int slow - int fast) [0..<length ema_slow]) (\<lambda>dif.
           let dea = calculate_ema dif signal
           in bind_err (macd_loop dif dea (int signal - 1) [0..<length dea]) (\<lambda>macd.
              Inr \<lparr>DIF = dif, DEA = dea, MACD = macd\<rparr>)))"

subsection \<open>calculate\_ma\<close>

text \<open>One series per period: position \<open>i\<close> holds the mean of
  \<open>prices[i - period + 1 : i + 1]\<close> when \<open>i \<ge> period - 1\<close> and \<open>None\<close> before.
  Periods are positive (the callers pass 5, 10, 20, 30, 60).\<close>

definition ma_series :: "real list \<Rightarrow> nat \<Rightarrow> real option list" where
  "ma_series prices period =
     map (\<lambda>i. if int period - 1 \<le> int i
              then Some (np_mean (py_slice prices (i + 1 - period) (i + 1)))
              else None)
       [0..<length prices]"

text \<open>The result dictionary, in insertion order: a period is present only when the
  list is at least that long.\<close>

fun calculate_ma :: "real list \<Rightarrow> nat list \<Rightarrow> (nat \<times> real option list) list" where
  "calculate_ma prices [] = []"
| "calculate_ma prices (period # periods) =
     (if period \<le> length prices then [(period, ma_series prices period)] else [])
     @ calculate_ma prices periods"

subsection \<open>calculate\_kdj\<close>

record kdj_result =
  K :: "real list"
  D :: "real list"
  J :: "real list"

definition py_div :: "real \<Rightarrow> real \<Rightarrow> py_error + real" where
  "py_div a b = (if b = 0 then Inl ZeroDivisionError else Inr (a / b))"

text \<open>The raw stochastic value of one step: 50 when the window's highest high equals
  its lowest low, the usual quotient otherwise.\<close>

definition kdj_rsv :: "real list \<Rightarrow> nat \<Rightarrow> real \<Rightarrow> real \<Rightarrow> py_error + real" where
  "kdj_rsv close i highest lowest =
     (if highest = lowest then Inr 50
      else bind_err (py_get close (int i)) (\<lambda>c.
           Inr ((c - lowest) / (highest - lowest) * 100)))"

text \<open>\<open>for i in range(n - 1, len(close))\<close>, with the running \<open>k\<close> and \<open>d\<close>; the
  result lists the triples \<open>(k, d, j)\<close> appended at each step.\<close>

fun kdj_loop ::
  "real list \<Rightarrow> real list \<Rightarrow> real list \<Rightarrow> nat \<Rightarrow> nat \<Rightarrow> nat \<Rightarrow> real \<Rightarrow> real \<Rightarrow> nat list
   \<Rightarrow> py_error + (real \<times> real \<times> real) list" where
  "kdj_loop high low close n m1 m2 k d [] = Inr []"
| "kdj_loop high low close n m1 m2 k d (i # is) =
     bind_err (py_max (py_slice high (i + 1 - n) (i + 1))) (\<lambda>highest.
     bind_err (py_min (py_slice low (i + 1 - n) (i + 1))) (\<lambda>lowest.
     bind_err (kdj_rsv close i highest lowest) (\<lambda>rsv.
     bind_err (py_div (rsv + (real m1 - 1) * k) (real m1)) (\<lambda>k'.
     bind_err (py_div (k' + (real m2 - 1) * d) (real m2)) (\<lambda>d'.
     let j = 3 * k' - 2 * d' in
     bind_err (kdj_loop high low close n m1 m2 k' d' is) (\<lambda>rest.
     Inr ((k', d', j) # rest)))))))"

definition calculate_kdj ::
  "real list \<Rightarrow> real list \<Rightarrow> real list \<Rightarrow> nat \<Rightarrow> nat \<Rightarrow> nat \<Rightarrow> py_error + kdj_result" where
  "calculate_kdj high low close n m1 m2 =
     (if length close < n then Inr \<lparr>K = [], D = [], J = []\<rparr>
      else bind_err (kdj_loop high low close n m1 m2 50 50 [n - 1..<length close]) (\<lambda>kdj.
           Inr \<lparr>K = map fst kdj, D = map (fst \<circ> snd) kdj, J = map (snd \<circ> snd) kdj\<rparr>))"

subsection \<open>calculate\_boll\<close>

record boll_result =
  UPPER :: "real list"
  MIDDLE :: "real list"
  LOWER :: "real list"

definition calculate_boll :: "real list \<Rightarrow> nat \<Rightarrow> real \<Rightarrow> boll_result" where
  "calculate_boll prices period std_dev =
     (if length prices < period then \<lparr>UPPER = [], MIDDLE = [], LOWER = []\<rparr>
      else
        let windows = map (\<lambda>i. py_slice prices (i + 1 - period) (i + 1))
                        [period - 1..<length prices]
        in \<lparr>UPPER = map (\<lambda>w. np_mean w + std_dev * np_std w) windows,
            MIDDLE = map np_mean windows,
            LOWER = map (\<lambda>w. np_mean w - std_dev * np_std w) windows\<rparr>)"

subsection \<open>calculate\_rsi\<close>

text \<open>The body of the second loop: the value appended for the window ending at \<open>i\<close>.\<close>

definition rsi_at :: "real list \<Rightarrow> real list \<Rightarrow> nat \<Rightarrow> nat \<Rightarrow> real" where
  "rsi_at gains losses period i =
     (let avg_gain = np_mean (py_slice gains (i + 1 - period) (i + 1));
          avg_loss = np_mean (py_slice losses (i + 1 - period) (i + 1))
      in if avg_loss = 0 then 100
         else let rs = avg_gain / avg_loss in 100 - (100 / (1 + rs)))"

definition calculate_rsi :: "real list \<Rightarrow> nat \<Rightarrow> real list" where
  "calculate_rsi prices period =
     (if length prices < period + 1 then []
      else
        let changes = map (\<lambda>i. prices ! i - prices ! (i - 1)) [1..<length prices];
            gains = map (\<lambda>change. max change 0) changes;
            losses = map (\<lambda>change. \<bar>min change 0\<bar>) changes
        in map (rsi_at gains losses period) [period - 1..<length gains])"

subsection \<open>calculate\_atr\<close>

text \<open>\<open>high[i]\<close> and \<open>low[i]\<close> are read at the indices of \<open>close\<close>, so a shorter
  \<open>high\<close> or \<open>low\<close> raises.\<close>

fun tr_loop :: "real list \<Rightarrow> real list \<Rightarrow> real list \<Rightarrow> nat list \<Rightarrow> py_error + real list" where
  "tr_loop high low close [] = Inr []"
| "tr_loop high low close (i # is) =
     bind_err (py_get high (int i)) (\<lambda>h.
     bind_err (py_get low (int i)) (\<lambda>l.
     bind_err (py_get close (int i - 1)) (\<lambda>c.
     let tr1 = h - l; tr2 = \<bar>h - c\<bar>; tr3 = \<bar>l - c\<bar>; tr = max (max tr1 tr2) tr3 in
     bind_err (tr_loop high low close is) (\<lambda>rest.
     Inr (tr # rest)))))"

definition calculate_atr :: "real list \<Rightarrow> real list \<Rightarrow> real list \<Rightarrow> nat \<Rightarrow> py_error + real list" where
  "calculate_atr high low close period =
     (if length close < period + 1 then Inr []
      else bind_err (tr_loop high low close [1..<length close]) (\<lambda>tr_values.
           Inr (map (\<lambda>i. np_mean (py_slice tr_values (i + 1 - period) (i + 1)))
                  [period - 1..<length tr_values])))"

section \<open>trading\_theory.py\<close>

subsection \<open>FibonacciAnalysis\<close>

definition RETRACEMENT_LEVELS :: "real list" where
  "RETRACEMENT_LEVELS = [0.236, 0.382, 0.5, 0.618, 0.786]"

text \<open>The dictionary from ratio to price, in the order of the ratios.\<close>

definition calculate_retracement :: "real \<Rightarrow> real \<Rightarrow> (real \<times> real) list" where
  "calculate_retracement high low =
     (let diff = high - low
      in map (\<lambda>ratio. (ratio, high - (diff * ratio))) RETRACEMENT_LEVELS)"

record support_resistance =
  support :: "real list"
  resistance :: "real list"

text \<open>\<open>sorted(support, reverse=True)\<close> is the descending list, \<open>sorted(resistance)\<close> the
  ascending one.\<close>

definition find_support_resistance :: "real \<Rightarrow> real \<Rightarrow> real \<Rightarrow> support_resistance" where
  "find_support_resistance current_price high low =
     (let retracement = calculate_retracement high low;
          sup = filter (\<lambda>price. price < current_price) (map snd retracement);
          res = filter (\<lambda>price. \<not> price < current_price) (map snd retracement)
      in \<lparr>support = rev (sort sup), resistance = sort res\<rparr>)"

subsection \<open>ElliottWaveAnalysis\<close>

text \<open>The labels of the wave analysis: the pattern, the phase and the forecast
  sentence. Of the forecast sentences only \<open>ContinueRising\<close> contains the word for
  "rise" that the scorer searches for.\<close>

datatype wave_pattern = PatternInsufficient | Uptrend | Downtrend | Sideways | Uncertain

datatype wave_phase = PhaseUnknown | Impulse | Corrective | Consolidation | Observing

datatype wave_prediction =
  ContinueRising | MayPullBack | ContinueFalling | MayRebound | RangeBound

record wave_info =
  pattern :: wave_pattern
  phase :: wave_phase
  peaks :: "nat option"
  troughs :: "nat option"

text \<open>\<open>xs[-1]\<close> and \<open>xs[-2]\<close> under the guard \<open>len(xs) >= 2\<close>. The source keeps
  each peak and trough as a pair \<open>(i, prices[i])\<close> and reads only the price and the
  number of pairs; the lists \<open>pk\<close> and \<open>tr\<close> below hold the prices.\<close>

definition last2 :: "'a list \<Rightarrow> 'a" where
  "last2 xs = xs ! (length xs - 2)"

definition identify_wave_pattern :: "real list \<Rightarrow> wave_info" where
  "identify_wave_pattern prices =
     (if length prices < 8
      then \<lparr>pattern = PatternInsufficient, phase = PhaseUnknown, peaks = None, troughs = None\<rparr>
      else
        let idx = [1..<length prices - 1];
            is_peak = (\<lambda>i. prices ! i > prices ! (i - 1) \<and> prices ! i > prices ! (i + 1));
            is_trough = (\<lambda>i. prices ! i < prices ! (i - 1) \<and> prices ! i < prices ! (i + 1));
            pk = map (\<lambda>i. prices ! i) (filter is_peak idx);
            tr = map (\<lambda>i. prices ! i) (filter (\<lambda>i. \<not> is_peak i \<and> is_trough i) idx);
            (trend, ph) =
              (if 2 \<le> length pk \<and> 2 \<le> length tr then
                 (if last pk > last2 pk \<and> last tr > last2 tr then (Uptrend, Impulse)
                  else if last pk < last2 pk \<and> last tr < last2 tr then (Downtrend, Corrective)
                  else (Sideways, Consolidation))
               else (Uncertain, Observing))
        in \<lparr>pattern = trend, phase = ph, peaks = Some (length pk), troughs = Some (length tr)\<rparr>)"

record prediction_result =
  prediction :: wave_prediction
  confidence :: real
  wave :: wave_info

definition predict_next_move :: "real list \<Rightarrow> prediction_result" where
  "predict_next_move prices =
     (let wave_info = identify_wave_pattern prices;
          (pred, conf) =
            (if pattern wave_info = Uptrend then
               (if phase wave_info = Impulse then (ContinueRising, 0.7) else (MayPullBack, 0.6))
             else if pattern wave_info = Downtrend then
               (if phase wave_info = Impulse then (ContinueFalling, 0.7) else (MayRebound, 0.6))
             else (RangeBound, 0.5))
      in \<lparr>prediction = pred, confidence = conf, wave = wave_info\<rparr>)"

subsection \<open>ChanTheoryAnalysis\<close>

datatype bi_direction = Up | Down

record bi =
  bi_type :: bi_direction
  bi_start :: nat
  bi_end :: nat
  start_price :: real
  end_price :: real

text \<open>The variables of the loop of \<open>identify_bi\<close>: the segments appended so far, the
  current direction (\<open>None\<close> until the first move), and where the open segment began.\<close>

record bi_state =
  st_list :: "bi list"
  st_direction :: "bi_direction option"
  st_start_idx :: nat
  st_start_price :: real

text \<open>One iteration of \<open>for i in range(1, len(close))\<close>.\<close>

definition bi_step :: "real list \<Rightarrow> nat \<Rightarrow> bi_state \<Rightarrow> bi_state" where
  "bi_step close i st =
     (case st_direction st of
        None \<Rightarrow>
          (if close ! i > close ! (i - 1) then st\<lparr>st_direction := Some Up\<rparr>
           else if close ! i < close ! (i - 1) then st\<lparr>st_direction := Some Down\<rparr>
           else st)
      | Some Up \<Rightarrow>
          (if close ! i < close ! (i - 1) then
             \<lparr>st_list = st_list st @
                 [\<lparr>bi_type = Up, bi_start = st_start_idx st, bi_end = i - 1,
                   start_price = st_start_price st, end_price = close ! (i - 1)\<rparr>],
              st_direction = Some Down, st_start_idx = i - 1,
              st_start_price = close ! (i - 1)\<rparr>
           else st)
      | Some Down \<Rightarrow>
          (if close ! i > close ! (i - 1) then
             \<lparr>st_list = st_list st @
                 [\<lparr>bi_type = Down, bi_start = st_start_idx st, bi_end = i - 1,
                   start_price = st_start_price st, end_price = close ! (i - 1)\<rparr>],
              st_direction = Some Up, st_start_idx = i - 1,
              st_start_price = close ! (i - 1)\<rparr>
           else st))"

text \<open>\<open>high\<close> and \<open>low\<close> are parameters of the source function that it never reads.\<close>

definition identify_bi :: "real list \<Rightarrow> real list \<Rightarrow> real list \<Rightarrow> bi list" where
  "identify_bi high low close =
     (if length close < 5 then []
      else st_list (fold (bi_step close) [1..<length close]
             \<lparr>st_list = [], st_direction = None, st_start_idx = 0,
              st_start_price = close ! 0\<rparr>))"

datatype chan_trend = TrendInsufficient | StrongUptrend | StrongDowntrend | Oscillating

record trend_result =
  trend :: chan_trend
  strength :: real
  bi_count :: "nat option"

text \<open>\<open>xs[::2]\<close>: every other element, starting with the first.\<close>

fun py_stride2 :: "'a list \<Rightarrow> 'a list" where
  "py_stride2 [] = []"
| "py_stride2 [x] = [x]"
| "py_stride2 (x # y # xs) = x # py_stride2 xs"

definition analyze_trend :: "bi list \<Rightarrow> trend_result" where
  "analyze_trend bis =
     (if length bis < 3 then \<lparr>trend = TrendInsufficient, strength = 0, bi_count = None\<rparr>
      else
        let recent_bi = py_last_n 3 bis
        in if list_all (\<lambda>b. bi_type b = Up) (py_stride2 recent_bi)
           then \<lparr>trend = StrongUptrend, strength = 0.8, bi_count = Some (length bis)\<rparr>
           else if list_all (\<lambda>b. bi_type b = Down) (py_stride2 recent_bi)
           then \<lparr>trend = StrongDowntrend, strength = 0.8, bi_count = Some (length bis)\<rparr>
           else \<lparr>trend = Oscillating, strength = 0.5, bi_count = Some (length bis)\<rparr>)"

subsection \<open>WyckoffAnalysis\<close>

text \<open>\<open>volume_change\<close> is a quotient of numpy floats: numpy does not raise on a zero
  divisor, it warns and returns an infinity or \<open>nan\<close>. A comparison with \<open>nan\<close> is
  false. \<open>price_change\<close> is a quotient of Python floats, which raises
  \<open>ZeroDivisionError\<close> on a zero divisor.\<close>

datatype np_float = Finite real | PosInf | NegInf | NaN

definition np_div :: "real \<Rightarrow> real \<Rightarrow> np_float" where
  "np_div a b =
     (if b \<noteq> 0 then Finite (a / b)
      else if a > 0 then PosInf else if a < 0 then NegInf else NaN)"

definition np_gt :: "np_float \<Rightarrow> real \<Rightarrow> bool" where
  "np_gt x c = (case x of Finite r \<Rightarrow> r > c | PosInf \<Rightarrow> True | NegInf \<Rightarrow> False | NaN \<Rightarrow> False)"

datatype wyckoff_phase =
  WyckoffInsufficient | Accumulation | Distribution | Markup | Markdown | Observation

datatype wyckoff_action = Watch | PrepareLong | PrepareShort | HoldLong | HoldShortOrExit | AwaitSignal

record phase_result =
  wy_phase :: wyckoff_phase
  wy_action :: wyckoff_action
  price_change :: "real option"
  volume_change :: "np_float option"

definition identify_phase :: "real list \<Rightarrow> real list \<Rightarrow> py_error + phase_result" where
  "identify_phase prices volumes =
     (if length prices < 10 \<or> length volumes < 10
      then Inr \<lparr>wy_phase = WyckoffInsufficient, wy_action = Watch,
                price_change = None, volume_change = None\<rparr>
      else
        bind_err (py_div (last prices - prices ! 0) (prices ! 0)) (\<lambda>pc.
        let avg_volume_early = np_mean (take (length volumes div 2) volumes);
            avg_volume_late = np_mean (drop (length volumes div 2) volumes);
            vc = np_div (avg_volume_late - avg_volume_early) avg_volume_early;
            (ph, act) =
              (if \<bar>pc\<bar> < 0.02 \<and> np_gt vc 0.3 then
                 (if last prices > prices ! (length prices - 5)
                  then (Accumulation, PrepareLong) else (Distribution, PrepareShort))
               else if pc > 0.05 \<and> np_gt vc 0 then (Markup, HoldLong)
               else if pc < - 0.05 \<and> np_gt vc 0 then (Markdown, HoldShortOrExit)
               else (Observation, AwaitSignal))
        in Inr \<lparr>wy_phase = ph, wy_action = act,
                 price_change = Some pc, volume_change = Some vc\<rparr>))"

datatype balance = BalanceUnknown | DemandExceeds | SupplyExceeds | DemandWeakens | SupplyWeakens | Balanced

datatype sd_trend = Rise | Fall

text \<open>The result for fewer than 5 prices has no \<open>trend\<close> key: \<open>sd_trend = None\<close>.
  Every test of the \<open>if\<close> chain is \<open>price_trend > 0 and ...\<close> or
  \<open>price_trend < 0 and ...\<close>, so \<open>recent_volumes[-1]\<close> is read (and can raise) only
  when \<open>price_trend\<close> is not zero.\<close>

record supply_demand =
  sd_balance :: balance
  sd_strength :: real
  sd_trend :: "sd_trend option"

definition analyze_supply_demand :: "real list \<Rightarrow> real list \<Rightarrow> py_error + supply_demand" where
  "analyze_supply_demand prices volumes =
     (if length prices < 5
      then Inr \<lparr>sd_balance = BalanceUnknown, sd_strength = 0, sd_trend = None\<rparr>
      else
        let recent_prices = py_last_n 5 prices;
            recent_volumes = py_last_n 5 volumes;
            price_trend = last recent_prices - recent_prices ! 0;
            volume_avg = np_mean recent_volumes
        in if price_trend = 0
           then Inr \<lparr>sd_balance = Balanced, sd_strength = 0.5, sd_trend = Some Fall\<rparr>
           else
           bind_err (py_get recent_volumes (- 1)) (\<lambda>v.
           let (bal, str) =
                 (if price_trend > 0 \<and> v > volume_avg then (DemandExceeds, 0.7)
                  else if price_trend < 0 \<and> v > volume_avg then (SupplyExceeds, 0.7)
                  else if price_trend > 0 \<and> v < volume_avg then (DemandWeakens, 0.4)
                  else if price_trend < 0 \<and> v < volume_avg then (SupplyWeakens, 0.4)
                  else (Balanced, 0.5))
           in Inr \<lparr>sd_balance = bal, sd_strength = str,
                    sd_trend = Some (if price_trend > 0 then Rise else Fall)\<rparr>))"

section \<open>trading\_advisor.py: TradingAdvisor\<close>

subsection \<open>Signals of the indicator families\<close>

text \<open>The label strings of the five evaluators. The lists of display sentences
  (\<open>signals\<close>, \<open>details\<close>) and the copies of last values that the evaluators also
  return are not modelled: no score and no decision reads them.\<close>

datatype signal_label =
  DataInsufficient
  | StrongBullish | Bullish | StrongBearish | Bearish | Neutral
  | StrongBuy | Buy | StrongSell | Sell | Hold
  | LeanLong | LeanShort

record ma_signal =
  ma_trend :: signal_label
  ma_score :: int

record signal =
  sig_label :: signal_label
  sig_score :: real

text \<open>\<open>values[-1]\<close> under the test \<open>values and values[-1] is not None\<close>.\<close>

definition ma_last :: "real option list \<Rightarrow> real option" where
  "ma_last values = (if values = [] then None else last values)"

text \<open>The first loop of \<open>_analyze_ma_signal\<close>, over the items of the dictionary, with the
  running score.\<close>

fun ma_price_loop :: "real \<Rightarrow> int \<Rightarrow> (nat \<times> real option list) list \<Rightarrow> int" where
  "ma_price_loop current_price score [] = score"
| "ma_price_loop current_price score ((period, values) # items) =
     (case ma_last values of
        None \<Rightarrow> ma_price_loop current_price score items
      | Some ma_value \<Rightarrow>
          if current_price > ma_value then ma_price_loop current_price (score + 1) items
          else ma_price_loop current_price (score - 1) items)"

definition ma_last_values :: "(nat \<times> real option list) list \<Rightarrow> real list" where
  "ma_last_values ma_dict = List.map_filter (\<lambda>(period, values). ma_last values) ma_dict"

definition ma_label :: "int \<Rightarrow> signal_label" where
  "ma_label score =
     (if score > 3 then StrongBullish else if score > 0 then Bullish
      else if score < - 3 then StrongBearish else if score < 0 then Bearish
      else Neutral)"

definition analyze_ma_signal :: "real \<Rightarrow> (nat \<times> real option list) list \<Rightarrow> ma_signal" where
  "analyze_ma_signal current_price ma_dict =
     (let score = ma_price_loop current_price 0 ma_dict;
          ma_values = ma_last_values ma_dict;
          score = (if ma_values = rev (sort ma_values) then score + 2
                   else if ma_values = sort ma_values then score - 2
                   else score)
      in \<lparr>ma_trend = ma_label score, ma_score = score\<rparr>)"

definition analyze_macd_signal :: "macd_result \<Rightarrow> py_error + signal" where
  "analyze_macd_signal macd =
     (if DIF macd = [] \<or> DEA macd = [] then Inr \<lparr>sig_label = DataInsufficient, sig_score = 0\<rparr>
      else
        let dif = last (DIF macd); dea = last (DEA macd) in
        bind_err (py_get (MACD macd) (- 1)) (\<lambda>macd_bar.
        bind_err
          (if 2 \<le> length (DIF macd) then
             (if dif > dea then
                bind_err (py_get (DIF macd) (- 2)) (\<lambda>dif2.
                bind_err (py_get (DEA macd) (- 2)) (\<lambda>dea2.
                Inr (if dif2 \<le> dea2 then 2 else 0)))
              else if dif < dea then
                bind_err (py_get (DIF macd) (- 2)) (\<lambda>dif2.
                bind_err (py_get (DEA macd) (- 2)) (\<lambda>dea2.
                Inr (if dif2 \<ge> dea2 then - 2 else 0)))
              else Inr 0)
           else Inr 0) (\<lambda>cross.
        let score = cross;
            score = (if dif > 0 \<and> dea > 0 then score + 1
                     else if dif < 0 \<and> dea < 0 then score - 1 else score);
            score = (if macd_bar > 0 then score + 0.5 else score - 0.5);
            lab = (if score > 2 then StrongBuy else if score > 0 then Buy
                   else if score < - 2 then StrongSell else if score < 0 then Sell
                   else Hold)
        in Inr \<lparr>sig_label = lab, sig_score = score\<rparr>)))"

definition analyze_kdj_signal :: "kdj_result \<Rightarrow> py_error + signal" where
  "analyze_kdj_signal kdj =
     (if K kdj = [] then Inr \<lparr>sig_label = DataInsufficient, sig_score = 0\<rparr>
      else
        let k = last (K kdj) in
        bind_err (py_get (D kdj) (- 1)) (\<lambda>d.
        bind_err (py_get (J kdj) (- 1)) (\<lambda>j.
        let score = (if k > 80 \<and> d > 80 then - 1 else if k < 20 \<and> d < 20 then 1 else 0) in
        bind_err
          (if 2 \<le> length (K kdj) then
             (if k > d then
                bind_err (py_get (K kdj) (- 2)) (\<lambda>k2.
                bind_err (py_get (D kdj) (- 2)) (\<lambda>d2.
                Inr (if k2 \<le> d2 then score + 1.5 else score)))
              else if k < d then
                bind_err (py_get (K kdj) (- 2)) (\<lambda>k2.
                bind_err (py_get (D kdj) (- 2)) (\<lambda>d2.
                Inr (if k2 \<ge> d2 then score - 1.5 else score)))
              else Inr score)
           else Inr score) (\<lambda>score.
        let score = (if j > 100 then score - 0.5 else if j < 0 then score + 0.5 else score);
            lab = (if score > 1.5 then Buy else if score < - 1.5 then Sell else Hold)
        in Inr \<lparr>sig_label = lab, sig_score = score\<rparr>))))"

text \<open>The band width \<open>(upper - lower) / middle\<close> is a quotient of numpy floats (it
  cannot raise) and only selects a display sentence.\<close>

definition analyze_boll_signal :: "real \<Rightarrow> boll_result \<Rightarrow> py_error + signal" where
  "analyze_boll_signal current_price boll =
     (if MIDDLE boll = [] then Inr \<lparr>sig_label = DataInsufficient, sig_score = 0\<rparr>
      else
        bind_err (py_get (UPPER boll) (- 1)) (\<lambda>upper.
        let middle = last (MIDDLE boll) in
        bind_err (py_get (LOWER boll) (- 1)) (\<lambda>lower.
        let score = (if current_price > upper then - 1
                     else if current_price < lower then 1
                     else if current_price > middle then 0.5
                     else - 0.5);
            lab = (if score > 0.5 then LeanLong else if score < - 0.5 then LeanShort
                   else Neutral)
        in Inr \<lparr>sig_label = lab, sig_score = score\<rparr>)))"

definition analyze_rsi_signal :: "real list \<Rightarrow> signal" where
  "analyze_rsi_signal rsi =
     (if rsi = [] then \<lparr>sig_label = DataInsufficient, sig_score = 0\<rparr>
      else
        let rsi_value = last rsi;
            score = (if rsi_value > 70 then - 1
                     else if rsi_value < 30 then 1
                     else if rsi_value > 50 then 0.5
                     else - 0.5);
            lab = (if score > 0.5 then LeanLong else if score < - 0.5 then LeanShort
                   else Neutral)
        in \<lparr>sig_label = lab, sig_score = score\<rparr>)"

record indicators_analysis =
  ind_MA :: ma_signal
  ind_MACD :: signal
  ind_KDJ :: signal
  ind_BOLL :: signal
  ind_RSI :: signal
  volatility :: real

definition analyze_indicators ::
  "real list \<Rightarrow> real list \<Rightarrow> real list \<Rightarrow> real list \<Rightarrow> py_error + indicators_analysis" where
  "analyze_indicators closes highs lows volumes =
     bind_err (py_get closes (- 1)) (\<lambda>current_price.
     let ma_dict = calculate_ma closes [5, 10, 20, 30, 60];
         ma_sig = analyze_ma_signal current_price ma_dict in
     bind_err (calculate_macd closes 12 26 9) (\<lambda>macd.
     bind_err (analyze_macd_signal macd) (\<lambda>macd_sig.
     bind_err (calculate_kdj highs lows closes 9 3 3) (\<lambda>kdj.
     bind_err (analyze_kdj_signal kdj) (\<lambda>kdj_sig.
     let boll = calculate_boll closes 20 2 in
     bind_err (analyze_boll_signal current_price boll) (\<lambda>boll_sig.
     let rsi = calculate_rsi closes 14;
         rsi_sig = analyze_rsi_signal rsi in
     bind_err (calculate_atr highs lows closes 14) (\<lambda>atr.
     Inr \<lparr>ind_MA = ma_sig, ind_MACD = macd_sig, ind_KDJ = kdj_sig, ind_BOLL = boll_sig,
          ind_RSI = rsi_sig, volatility = (if atr \<noteq> [] then last atr else 0)\<rparr>)))))))"

subsection \<open>The theory families\<close>

record fib_analysis =
  fib_high :: real
  fib_low :: real
  retracement_levels :: "(real \<times> real) list"
  fib_support :: "real list"
  fib_resistance :: "real list"

definition analyze_fibonacci ::
  "real list \<Rightarrow> real list \<Rightarrow> real list \<Rightarrow> real \<Rightarrow> py_error + fib_analysis" where
  "analyze_fibonacci closes highs lows current_price =
     bind_err (py_max (py_last_n 20 highs)) (\<lambda>high.
     bind_err (py_min (py_last_n 20 lows)) (\<lambda>low.
     let sr = find_support_resistance current_price high low
     in Inr \<lparr>fib_high = high, fib_low = low,
              retracement_levels = calculate_retracement high low,
              fib_support = support sr, fib_resistance = resistance sr\<rparr>))"

record elliott_analysis =
  el_pattern :: wave_info
  el_prediction :: prediction_result

definition analyze_elliott :: "real list \<Rightarrow> elliott_analysis" where
  "analyze_elliott closes =
     \<lparr>el_pattern = identify_wave_pattern closes, el_prediction = predict_next_move closes\<rparr>"

record chan_analysis =
  chan_bi_count :: nat
  chan_trend :: trend_result

definition analyze_chan :: "real list \<Rightarrow> real list \<Rightarrow> real list \<Rightarrow> chan_analysis" where
  "analyze_chan highs lows closes =
     (let bi_list = identify_bi highs lows closes
      in \<lparr>chan_bi_count = length bi_list, chan_trend = analyze_trend bi_list\<rparr>)"

record wyckoff_analysis =
  wy_phase_result :: phase_result
  wy_supply_demand :: supply_demand

definition analyze_wyckoff :: "real list \<Rightarrow> real list \<Rightarrow> py_error + wyckoff_analysis" where
  "analyze_wyckoff closes volumes =
     bind_err (identify_phase closes volumes) (\<lambda>ph.
     bind_err (analyze_supply_demand closes volumes) (\<lambda>sd.
     Inr \<lparr>wy_phase_result = ph, wy_supply_demand = sd\<rparr>))"

subsection \<open>\_calculate\_score\<close>

text \<open>The scorer tests whether a label contains (Elliott, Chan) or equals (Wyckoff) the
  word for "rise". Of the forecast sentences only the one for a continued rise
  contains it, of the Chan trend labels only the strong uptrend.\<close>

definition prediction_mentions_rise :: "wave_prediction \<Rightarrow> bool" where
  "prediction_mentions_rise p = (p = ContinueRising)"

definition trend_mentions_rise :: "chan_trend \<Rightarrow> bool" where
  "trend_mentions_rise t = (t = StrongUptrend)"

definition py_clamp_0_100 :: "real \<Rightarrow> real" where
  "py_clamp_0_100 x = max 0 (min 100 x)"

record composite_score =
  total :: real
  indicator_score :: real
  elliott_score :: real
  chan_score :: real
  wyckoff_score :: real

text \<open>The local variables of \<open>_calculate_score\<close> before rounding.\<close>

definition indicator_score_of :: "indicators_analysis \<Rightarrow> real" where
  "indicator_score_of indicators =
     real_of_int (ma_score (ind_MA indicators)) * 0.25 +
     sig_score (ind_MACD indicators) * 0.25 +
     sig_score (ind_KDJ indicators) * 0.2 +
     sig_score (ind_BOLL indicators) * 0.15 +
     sig_score (ind_RSI indicators) * 0.15"

definition elliott_score_of :: "elliott_analysis \<Rightarrow> real" where
  "elliott_score_of elliott =
     (let s = confidence (el_prediction elliott) * 2 - 1
      in if prediction_mentions_rise (prediction (el_prediction elliott)) then \<bar>s\<bar> else - \<bar>s\<bar>)"

definition chan_score_of :: "chan_analysis \<Rightarrow> real" where
  "chan_score_of chan =
     (let s = strength (chan_trend chan) * 2 - 1
      in if trend_mentions_rise (trend (chan_trend chan)) then \<bar>s\<bar> else - \<bar>s\<bar>)"

text \<open>\<open>wyckoff["supply_demand"]["trend"]\<close> raises \<open>KeyError\<close> when the key is
  absent.\<close>

definition wyckoff_score_of :: "wyckoff_analysis \<Rightarrow> py_error + real" where
  "wyckoff_score_of wyckoff =
     (let s = sd_strength (wy_supply_demand wyckoff) * 2 - 1
      in case sd_trend (wy_supply_demand wyckoff) of
           None \<Rightarrow> Inl KeyError
         | Some t \<Rightarrow> Inr (if t = Rise then \<bar>s\<bar> else - \<bar>s\<bar>))"

definition total_score_of :: "real \<Rightarrow> real \<Rightarrow> real \<Rightarrow> real \<Rightarrow> real" where
  "total_score_of ind_s elliott_s chan_s wyckoff_s =
     ind_s * 0.4 + elliott_s * 0.2 + chan_s * 0.2 + wyckoff_s * 0.2"

definition normalized_score_of :: "real \<Rightarrow> real" where
  "normalized_score_of total_score = py_clamp_0_100 ((total_score + 5) / 10 * 100)"

definition calculate_score ::
  "(real \<Rightarrow> real) \<Rightarrow> indicators_analysis \<Rightarrow> fib_analysis \<Rightarrow> elliott_analysis
   \<Rightarrow> chan_analysis \<Rightarrow> wyckoff_analysis \<Rightarrow> py_error + composite_score" where
  "calculate_score round2 indicators fib elliott chan wyckoff =
     (let ind_s = indicator_score_of indicators;
          elliott_s = elliott_score_of elliott;
          chan_s = chan_score_of chan in
      bind_err (wyckoff_score_of wyckoff) (\<lambda>wyckoff_s.
      let total_score = total_score_of ind_s elliott_s chan_s wyckoff_s;
          normalized_score = normalized_score_of total_score
      in Inr \<lparr>total = round2 normalized_score,
               indicator_score = round2 ind_s,
               elliott_score = round2 elliott_s,
               chan_score = round2 chan_s,
               wyckoff_score = round2 wyckoff_s\<rparr>))"

subsection \<open>\_generate\_recommendations\<close>

datatype direction = Long | Short | Flat

datatype confidence_tier = High | Medium | NoTrade

datatype horizon = H15min | H1h | H4h | H24h

datatype forecast = Rising | Falling | Choppy | ChoppyRising | ChoppyFalling

text \<open>\<open>fib["support"][0] if fib["support"] else price * 0.95\<close>, and its mirror.\<close>

definition nearest_support :: "real \<Rightarrow> fib_analysis \<Rightarrow> real" where
  "nearest_support price fib =
     (if fib_support fib \<noteq> [] then fib_support fib ! 0 else price * 0.95)"

definition nearest_resistance :: "real \<Rightarrow> fib_analysis \<Rightarrow> real" where
  "nearest_resistance price fib =
     (if fib_resistance fib \<noteq> [] then fib_resistance fib ! 0 else price * 1.05)"

fun calculate_stop_loss_long ::
  "(real \<Rightarrow> real) \<Rightarrow> real \<Rightarrow> real \<Rightarrow> fib_analysis \<Rightarrow> horizon \<Rightarrow> real option" where
  "calculate_stop_loss_long round2 price atr fib H15min = Some (round2 (price - atr * 1))"
| "calculate_stop_loss_long round2 price atr fib H1h =
     Some (round2 (max (price - atr * 2) (nearest_support price fib)))"
| "calculate_stop_loss_long round2 price atr fib H4h =
     Some (round2 (max (price - atr * 3) (nearest_support price fib)))"
| "calculate_stop_loss_long round2 price atr fib H24h =
     Some (round2 (max (price - atr * 5) (fib_low fib)))"

fun calculate_take_profit_long ::
  "(real \<Rightarrow> real) \<Rightarrow> real \<Rightarrow> real \<Rightarrow> fib_analysis \<Rightarrow> horizon \<Rightarrow> real option" where
  "calculate_take_profit_long round2 price atr fib H15min = Some (round2 (price + atr * 1.5))"
| "calculate_take_profit_long round2 price atr fib H1h =
     Some (round2 (min (price + atr * 3) (nearest_resistance price fib)))"
| "calculate_take_profit_long round2 price atr fib H4h =
     Some (round2 (min (price + atr * 5) (nearest_resistance price fib)))"
| "calculate_take_profit_long round2 price atr fib H24h =
     Some (round2 (min (price + atr * 8) (fib_high fib)))"

fun calculate_stop_loss_short ::
  "(real \<Rightarrow> real) \<Rightarrow> real \<Rightarrow> real \<Rightarrow> fib_analysis \<Rightarrow> horizon \<Rightarrow> real option" where
  "calculate_stop_loss_short round2 price atr fib H15min = Some (round2 (price + atr * 1))"
| "calculate_stop_loss_short round2 price atr fib H1h =
     Some (round2 (min (price + atr * 2) (nearest_resistance price fib)))"
| "calculate_stop_loss_short round2 price atr fib H4h =
     Some (round2 (min (price + atr * 3) (nearest_resistance price fib)))"
| "calculate_stop_loss_short round2 price atr fib H24h =
     Some (round2 (min (price + atr * 5) (fib_high fib)))"

fun calculate_take_profit_short ::
  "(real \<Rightarrow> real) \<Rightarrow> real \<Rightarrow> real \<Rightarrow> fib_analysis \<Rightarrow> horizon \<Rightarrow> real option" where
  "calculate_take_profit_short round2 price atr fib H15min = Some (round2 (price - atr * 1.5))"
| "calculate_take_profit_short round2 price atr fib H1h =
     Some (round2 (max (price - atr * 3) (nearest_support price fib)))"
| "calculate_take_profit_short round2 price atr fib H4h =
     Some (round2 (max (price - atr * 5) (nearest_support price fib)))"
| "calculate_take_profit_short round2 price atr fib H24h =
     Some (round2 (max (price - atr * 8) (fib_low fib)))"

fun predict_timeframes :: "real \<Rightarrow> direction \<Rightarrow> horizon \<Rightarrow> forecast" where
  "predict_timeframes score Long H15min = (if score > 55 then Rising else Choppy)"
| "predict_timeframes score Long H1h = (if score > 60 then Rising else Choppy)"
| "predict_timeframes score Long H4h = (if score > 65 then Rising else ChoppyRising)"
| "predict_timeframes score Long H24h = (if score > 70 then Rising else Choppy)"
| "predict_timeframes score Short H15min = (if score < 45 then Falling else Choppy)"
| "predict_timeframes score Short H1h = (if score < 40 then Falling else Choppy)"
| "predict_timeframes score Short H4h = (if score < 35 then Falling else ChoppyFalling)"
| "predict_timeframes score Short H24h = (if score < 30 then Falling else Choppy)"
| "predict_timeframes score Flat h = Choppy"

text \<open>\<open>if sl and tp\<close>: a level that is \<open>None\<close> or \<open>0.0\<close> is false in Python.\<close>

definition py_truthy :: "real option \<Rightarrow> bool" where
  "py_truthy v = (case v of None \<Rightarrow> False | Some x \<Rightarrow> x \<noteq> 0)"

definition calculate_risk_reward ::
  "(real \<Rightarrow> real) \<Rightarrow> real \<Rightarrow> (horizon \<Rightarrow> real option) \<Rightarrow> (horizon \<Rightarrow> real option)
   \<Rightarrow> horizon \<Rightarrow> real option" where
  "calculate_risk_reward round2 price stop_loss take_profit timeframe =
     (let sl = stop_loss timeframe; tp = take_profit timeframe
      in if py_truthy sl \<and> py_truthy tp then
           let risk = \<bar>price - the sl\<bar>;
               reward = \<bar>the tp - price\<bar>;
               ratio = (if risk > 0 then reward / risk else 0)
           in Some (round2 ratio)
         else None)"

record recommendation =
  rec_direction :: direction
  rec_confidence :: confidence_tier
  rec_score :: real
  stop_loss :: "horizon \<Rightarrow> real option"
  take_profit :: "horizon \<Rightarrow> real option"
  predictions :: "horizon \<Rightarrow> forecast"
  risk_reward_ratio :: "horizon \<Rightarrow> real option"

definition generate_recommendations ::
  "(real \<Rightarrow> real) \<Rightarrow> real \<Rightarrow> composite_score \<Rightarrow> indicators_analysis \<Rightarrow> fib_analysis
   \<Rightarrow> recommendation" where
  "generate_recommendations round2 current_price score indicators fib =
     (let total_score = total score;
          (dir, conf) =
            (if total_score > 65 then (Long, High)
             else if total_score > 55 then (Long, Medium)
             else if total_score < 35 then (Short, High)
             else if total_score < 45 then (Short, Medium)
             else (Flat, NoTrade));
          atr = volatility indicators;
          (sl, tp) =
            (case dir of
               Long \<Rightarrow> (calculate_stop_loss_long round2 current_price atr fib,
                         calculate_take_profit_long round2 current_price atr fib)
             | Short \<Rightarrow> (calculate_stop_loss_short round2 current_price atr fib,
                          calculate_take_profit_short round2 current_price atr fib)
             | Flat \<Rightarrow> (\<lambda>h. None, \<lambda>h. None))
      in \<lparr>rec_direction = dir, rec_confidence = conf, rec_score = total_score,
          stop_loss = sl, take_profit = tp,
          predictions = predict_timeframes total_score dir,
          risk_reward_ratio = calculate_risk_reward round2 current_price sl tp\<rparr>)"

subsection \<open>analyze\_comprehensive\<close>

text \<open>A candle as \<open>get_klines\<close> formats it; the analysis reads \<open>close\<close>, \<open>high\<close>,
  \<open>low\<close> and \<open>volume\<close>, all of them floats.\<close>

record candle =
  c_open :: real
  c_high :: real
  c_low :: real
  c_close :: real
  c_volume :: real

record analysis =
  current_price :: real
  indicators :: indicators_analysis
  fibonacci :: fib_analysis
  elliott_wave :: elliott_analysis
  chan_theory :: chan_analysis
  wyckoff :: wyckoff_analysis
  score :: composite_score
  recommendations :: recommendation

text \<open>What \<open>analyze_comprehensive\<close> returns: the dictionary with the single key
  \<open>error\<close>, or the full analysis.\<close>

datatype analysis_outcome = InsufficientData | Analysis analysis

definition analyze_comprehensive ::
  "(real \<Rightarrow> real) \<Rightarrow> candle list \<Rightarrow> py_error + analysis_outcome" where
  "analyze_comprehensive round2 klines =
     (if length klines < 30 then Inr InsufficientData
      else
        let closes = map c_close klines;
            highs = map c_high klines;
            lows = map c_low klines;
            volumes = map c_volume klines in
        bind_err (py_get closes (- 1)) (\<lambda>price.
        bind_err (analyze_indicators closes highs lows volumes) (\<lambda>indicators_analysis.
        bind_err (analyze_fibonacci closes highs lows price) (\<lambda>fib.
        let elliott = analyze_elliott closes;
            chan = analyze_chan highs lows closes in
        bind_err (analyze_wyckoff closes volumes) (\<lambda>wy.
        bind_err (calculate_score round2 indicators_analysis fib elliott chan wy) (\<lambda>sc.
        let recs = generate_recommendations round2 price sc indicators_analysis fib
        in Inr (Analysis
             \<lparr>current_price = price, indicators = indicators_analysis, fibonacci = fib,
              elliott_wave = elliott, chan_theory = chan, wyckoff = wy, score = sc,
              recommendations = recs\<rparr>)))))))"

section \<open>Notions used in the statements\<close>

text \<open>The DIF series that the default call \<open>calculate_macd(prices)\<close> computes for
  at least 26 prices: \<open>dif[i] = ema_fast[i + 14] - ema_slow[i]\<close> for every index of the
  slow series.\<close>

definition macd_dif :: "real list \<Rightarrow> real list" where
  "macd_dif prices =
     map (\<lambda>i. calculate_ema prices 12 ! (i + 14) - calculate_ema prices 26 ! i)
       [0..<length prices - 25]"

text \<open>A list of directions in which neighbours differ.\<close>

fun alternating :: "bi_direction list \<Rightarrow> bool" where
  "alternating [] = True"
| "alternating [d] = True"
| "alternating (d # e # ds) = (d \<noteq> e \<and> alternating (e # ds))"

text \<open>The invariant of the loop of \<open>identify_bi\<close>: the segments emitted so far
  alternate, and once a segment exists the current direction is the opposite of the
  last segment's.\<close>

definition bi_inv :: "bi_state \<Rightarrow> bool" where
  "bi_inv st =
     (alternating (map bi_type (st_list st)) \<and>
      (st_list st = [] \<or>
       st_direction st = Some (if bi_type (last (st_list st)) = Up then Down else Up)))"

subsection \<open>Example inputs\<close>

text \<open>Inputs of the scorer and of the recommendation step, used where a statement is
  evaluated at a concrete point. The signal scores are values the evaluators return
  (\<open>macd_s\<close> and the volatility \<open>atr\<close> are left open); the Fibonacci analysis is the
  one of a window whose high, 100, is the current price and whose low is 90.\<close>

definition example_indicators :: "real \<Rightarrow> real \<Rightarrow> indicators_analysis" where
  "example_indicators macd_s atr =
     \<lparr>ind_MA = \<lparr>ma_trend = Neutral, ma_score = 0\<rparr>,
      ind_MACD = \<lparr>sig_label = Buy, sig_score = macd_s\<rparr>,
      ind_KDJ = \<lparr>sig_label = Hold, sig_score = 0\<rparr>,
      ind_BOLL = \<lparr>sig_label = Neutral, sig_score = 0.5\<rparr>,
      ind_RSI = \<lparr>sig_label = Neutral, sig_score = 0.5\<rparr>,
      volatility = atr\<rparr>"

definition example_fib :: fib_analysis where
  "example_fib =
     \<lparr>fib_high = 100, fib_low = 90, retracement_levels = calculate_retracement 100 90,
      fib_support = support (find_support_resistance 100 100 90),
      fib_resistance = resistance (find_support_resistance 100 100 90)\<rparr>"




definition example_score :: "real \<Rightarrow> composite_score" where
  "example_score t =
     \<lparr>total = t, indicator_score = 0, elliott_score = 0, chan_score = 0, wyckoff_score = 0\<rparr>"

definition flat_candle :: candle where
  "flat_candle = \<lparr>c_open = 100, c_high = 100, c_low = 100, c_close = 100, c_volume = 5\<rparr>"

definition zero_close_candle :: candle where
  "zero_close_candle = \<lparr>c_open = 0, c_high = 0, c_low = 0, c_close = 0, c_volume = 5\<rparr>"

section \<open>Properties\<close>

subsection \<open>Lists and indexing\<close>

lemma bind_err_Inr [simp]: "bind_err (Inr x) f = f x"
  by (simp add: bind_err_def)

lemma bind_err_Inl [simp]: "bind_err (Inl e) f = Inl e"
  by (simp add: bind_err_def)

lemma py_get_in_range: "i < length xs \<Longrightarrow> py_get xs (int i) = Inr (xs ! i)"
  by (simp add: py_get_def)

lemma py_get_beyond: "length xs \<le> i \<Longrightarrow> py_get xs (int i) = Inl IndexError"
  by (simp add: py_get_def)

lemma length_ema_loop [simp]: "length (ema_loop m prev ps) = length ps"
  by (induction ps arbitrary: prev) (simp_all add: Let_def)

lemma length_calculate_ema [simp]:
  "length (calculate_ema prices period) = Suc (length prices - period)"
  by (simp add: calculate_ema_def Let_def)

subsection \<open>MACD\<close>

lemma dif_loop_ok:
  "\<forall>i\<in>set is. i + off < length ef \<and> i < length es \<Longrightarrow>
   dif_loop ef es (int off) is = Inr (map (\<lambda>i. ef ! (i + off) - es ! i) is)"
proof (induction "is")
  case Nil
  then show ?case by simp
next
  case (Cons i "is")
  have a: "py_get ef (int i + int off) = Inr (ef ! (i + off))"
    using Cons.prems py_get_in_range [of "i + off" ef] by simp
  have b: "py_get es (int i) = Inr (es ! i)"
    using Cons.prems py_get_in_range [of i es] by simp
  show ?case using Cons a b by simp
qed

lemma macd_loop_ok:
  "\<forall>i\<in>set is. i + off < length dif \<and> i < length dea \<Longrightarrow>
   macd_loop dif dea (int off) is = Inr (map (\<lambda>i. (dif ! (i + off) - dea ! i) * 2) is)"
proof (induction "is")
  case Nil
  then show ?case by simp
next
  case (Cons i "is")
  have a: "py_get dif (int i + int off) = Inr (dif ! (i + off))"
    using Cons.prems py_get_in_range [of "i + off" dif] by simp
  have b: "py_get dea (int i) = Inr (dea ! i)"
    using Cons.prems py_get_in_range [of i dea] by simp
  show ?case using Cons a b by simp
qed

lemma macd_loop_first_beyond:
  "length dif \<le> i + off \<Longrightarrow> macd_loop dif dea (int off) (i # is) = Inl IndexError"
  using py_get_beyond [of dif "i + off"] by simp

lemma length_macd_dif [simp]: "length (macd_dif prices) = length prices - 25"
  by (simp add: macd_dif_def)

lemma dif_default:
  assumes "26 \<le> length prices"
  shows "dif_loop (calculate_ema prices 12) (calculate_ema prices 26) (int 26 - int 12)
           [0..<length (calculate_ema prices 26)] = Inr (macd_dif prices)"
proof -
  have "dif_loop (calculate_ema prices 12) (calculate_ema prices 26) (int 14)
           [0..<length (calculate_ema prices 26)] =
        Inr (map (\<lambda>i. calculate_ema prices 12 ! (i + 14) - calculate_ema prices 26 ! i)
               [0..<length (calculate_ema prices 26)])"
    using assms by (intro dif_loop_ok) auto
  moreover have "length (calculate_ema prices 26) = length prices - 25"
    using assms by simp
  ultimately show ?thesis by (simp only: macd_dif_def of_nat_numeral) simp
qed

text \<open>Fewer prices than the slow period: three empty series, whatever the periods.\<close>

lemma calculate_macd_short:
  "length prices < slow \<Longrightarrow>
   calculate_macd prices fast slow signal = Inr \<lparr>DIF = [], DEA = [], MACD = []\<rparr>"
  by (simp add: calculate_macd_def)

text \<open>From 26 to 33 prices DIF has at most 8 values, DEA is the one-element series of
  their mean, and the first step of the last loop reads \<open>dif[8]\<close>.\<close>

lemma calculate_macd_raises:
  assumes "26 \<le> length prices" "length prices \<le> 33"
  shows "calculate_macd prices 12 26 9 = Inl IndexError"
proof -
  let ?dif = "macd_dif prices"
  have lde: "length (calculate_ema ?dif 9) = Suc 0" using assms by simp
  have "macd_loop ?dif (calculate_ema ?dif 9) (int 8) (0 # []) = Inl IndexError"
    using assms by (intro macd_loop_first_beyond) simp
  then have "macd_loop ?dif (calculate_ema ?dif 9) (int 9 - 1)
               [0..<length (calculate_ema ?dif 9)] = Inl IndexError"
    using lde by simp
  then show ?thesis
    using assms dif_default [of prices] by (simp add: calculate_macd_def Let_def)
qed

lemma calculate_macd_ok:
  assumes "34 \<le> length prices"
  shows "calculate_macd prices 12 26 9 =
    Inr \<lparr>DIF = macd_dif prices, DEA = calculate_ema (macd_dif prices) 9,
         MACD = map (\<lambda>i. (macd_dif prices ! (i + 8) - calculate_ema (macd_dif prices) 9 ! i) * 2)
                  [0..<length prices - 33]\<rparr>"
proof -
  let ?dif = "macd_dif prices"
  have lde: "length (calculate_ema ?dif 9) = length prices - 33" using assms by simp
  have "macd_loop ?dif (calculate_ema ?dif 9) (int 8) [0..<length (calculate_ema ?dif 9)]
     = Inr (map (\<lambda>i. (?dif ! (i + 8) - calculate_ema ?dif 9 ! i) * 2)
              [0..<length (calculate_ema ?dif 9)])"
    using assms by (intro macd_loop_ok) auto
  then have "macd_loop ?dif (calculate_ema ?dif 9) (int 9 - 1) [0..<length (calculate_ema ?dif 9)]
     = Inr (map (\<lambda>i. (?dif ! (i + 8) - calculate_ema ?dif 9 ! i) * 2) [0..<length prices - 33])"
    by (simp only: lde of_nat_numeral) simp
  then show ?thesis
    using assms dif_default [of prices] by (simp add: calculate_macd_def Let_def)
qed

text \<open>
  Claim C1. The default call \<open>calculate_macd(prices)\<close> returns three empty series for
  fewer than 26 prices. For 34 prices or more it returns DIF with
  \<open>dif[i] = ema_fast[i + 14] - ema_slow[i]\<close>, DEA as the EMA of DIF over 9, and the bars
  \<open>(dif[i + 8] - dea[i]) * 2\<close>, every index in range. For 26 to 33 prices, lengths for
  which the claim promises the same, it raises \<open>IndexError\<close>: the read \<open>dif[0 + 8]\<close> is
  out of range.
\<close>

theorem calculate_macd_default:
  "calculate_macd prices 12 26 9 =
     (if length prices < 26 then Inr \<lparr>DIF = [], DEA = [], MACD = []\<rparr>
      else if length prices < 34 then Inl IndexError
      else Inr \<lparr>DIF = macd_dif prices, DEA = calculate_ema (macd_dif prices) 9,
                MACD = map (\<lambda>i. (macd_dif prices ! (i + 8)
                                  - calculate_ema (macd_dif prices) 9 ! i) * 2)
                         [0..<length prices - 33]\<rparr>)"
proof -
  consider "length prices < 26" | "26 \<le> length prices" "length prices \<le> 33"
    | "34 \<le> length prices" by linarith
  then show ?thesis
  proof cases
    case 1
    then show ?thesis using calculate_macd_short [of prices 26 12 9] by simp
  next
    case 2
    then show ?thesis using calculate_macd_raises [of prices] by simp
  next
    case 3
    then show ?thesis using calculate_macd_ok [of prices] by simp
  qed
qed

theorem calculate_macd_default_at_26_prices:
  "calculate_macd (map real [100..<126]) 12 26 9 = Inl IndexError"
  using calculate_macd_default [of "map real [100..<126]"] by simp

subsection \<open>Directional segments\<close>

lemma alternating_snoc:
  "alternating ds \<Longrightarrow> (ds = [] \<or> last ds \<noteq> d) \<Longrightarrow> alternating (ds @ [d])"
  by (induction ds rule: alternating.induct) auto

lemma bi_step_inv: "bi_inv st \<Longrightarrow> bi_inv (bi_step close i st)"
proof -
  assume inv: "bi_inv st"
  show ?thesis
  proof (cases "st_direction st")
    case None
    then have "st_list st = []" using inv by (auto simp: bi_inv_def)
    then show ?thesis using None inv by (simp add: bi_step_def bi_inv_def)
  next
    case (Some d)
    show ?thesis
    proof (cases d)
      case Up
      have "alternating (map bi_type (st_list st) @ [Up])"
        using inv Some Up
        by (intro alternating_snoc) (auto simp: bi_inv_def last_map split: if_splits)
      then show ?thesis
        using inv Some Up by (auto simp: bi_step_def bi_inv_def split: if_splits)
    next
      case Down
      have "alternating (map bi_type (st_list st) @ [Down])"
        using inv Some Down
        by (intro alternating_snoc) (auto simp: bi_inv_def last_map split: if_splits)
      then show ?thesis
        using inv Some Down by (auto simp: bi_step_def bi_inv_def split: if_splits)
    qed
  qed
qed

lemma fold_bi_step_inv: "bi_inv st \<Longrightarrow> bi_inv (fold (bi_step close) is st)"
  by (induction "is" arbitrary: st) (simp_all add: bi_step_inv)

lemma identify_bi_alternating: "alternating (map bi_type (identify_bi high low close))"
proof (cases "length close < 5")
  case True
  then show ?thesis by (simp add: identify_bi_def)
next
  case False
  have "bi_inv \<lparr>st_list = [], st_direction = None, st_start_idx = 0,
                st_start_price = close ! 0\<rparr>"
    by (simp add: bi_inv_def)
  then have "bi_inv (fold (bi_step close) [1..<length close]
     \<lparr>st_list = [], st_direction = None, st_start_idx = 0, st_start_price = close ! 0\<rparr>)"
    by (rule fold_bi_step_inv)
  then show ?thesis using False by (simp add: identify_bi_def bi_inv_def)
qed

lemma alternating_nth:
  "alternating ds \<Longrightarrow> Suc i < length ds \<Longrightarrow> ds ! i \<noteq> ds ! Suc i"
proof (induction ds arbitrary: i rule: alternating.induct)
  case (3 d e ds)
  then show ?case by (cases i) auto
qed simp_all

text \<open>
  Claim C8. For every close series (and whatever \<open>high\<close> and \<open>low\<close> are), two
  neighbouring segments of the output of \<open>identify_bi\<close> never have the same type: of
  the segments at positions \<open>i\<close> and \<open>i + 1\<close> one is up and the other is down.
\<close>

theorem identify_bi_alternates:
  "Suc i < length (identify_bi high low close) \<Longrightarrow>
   bi_type (identify_bi high low close ! i) \<noteq> bi_type (identify_bi high low close ! Suc i)"
  using alternating_nth [OF identify_bi_alternating, of i high low close] by simp

theorem identify_bi_alternates_witness:
  "Suc 0 < length (identify_bi [] [] [10, 11, 12, 11, 10, 11, 12]) \<and>
   bi_type (identify_bi [] [] [10, 11, 12, 11, 10, 11, 12] ! 0) \<noteq>
   bi_type (identify_bi [] [] [10, 11, 12, 11, 10, 11, 12] ! Suc 0)"
proof -
  have len: "Suc 0 < length (identify_bi [] [] [10, 11, 12, 11, 10, 11, 12])"
    by (simp add: identify_bi_def bi_step_def upt_rec)
  show ?thesis
    using len identify_bi_alternates [OF len] by simp
qed

lemma alternating_append_right: "alternating (xs @ ys) \<Longrightarrow> alternating ys"
proof (induction xs rule: alternating.induct)
  case (2 d)
  then show ?case by (cases ys) simp_all
qed simp_all

lemma last_three:
  assumes "3 \<le> length xs"
  obtains ys a b c where "xs = ys @ [a, b, c]"
proof -
  obtain ys1 c where 1: "xs = ys1 @ [c]"
    using assms by (cases xs rule: rev_cases) auto
  obtain ys2 b where 2: "ys1 = ys2 @ [b]"
    using assms 1 by (cases ys1 rule: rev_cases) auto
  obtain ys a where 3: "ys2 = ys @ [a]"
    using assms 1 2 by (cases ys2 rule: rev_cases) auto
  show ?thesis using that [of ys a b c] 1 2 3 by simp
qed

text \<open>On a list of segments that alternate, the first and the last of the last three
  have the same type, so the strided test reads the type of the last segment.\<close>

lemma analyze_trend_alternating:
  assumes "alternating (map bi_type bis)" "3 \<le> length bis"
  shows "analyze_trend bis =
     (if bi_type (last bis) = Up
      then \<lparr>trend = StrongUptrend, strength = 0.8, bi_count = Some (length bis)\<rparr>
      else \<lparr>trend = StrongDowntrend, strength = 0.8, bi_count = Some (length bis)\<rparr>)"
proof -
  obtain ys a b c where bis: "bis = ys @ [a, b, c]"
    using assms(2) by (rule last_three)
  have "alternating (map bi_type ys @ [bi_type a, bi_type b, bi_type c])"
    using assms(1) bis by simp
  then have "alternating [bi_type a, bi_type b, bi_type c]"
    by (rule alternating_append_right)
  then have ac: "bi_type a = bi_type c"
    by (cases "bi_type a"; cases "bi_type b"; cases "bi_type c") simp_all
  have "py_last_n 3 bis = [a, b, c]" by (simp add: bis py_last_n_def)
  then show ?thesis
    using ac assms(2) by (cases "bi_type c") (simp_all add: analyze_trend_def bis)
qed

text \<open>
  Claim C10. On the output of \<open>identify_bi\<close>, when it has at least 3 segments,
  \<open>analyze_trend\<close> answers from the last segment alone: the trend is the strong uptrend
  with strength 0.8 exactly when the last segment is up, the strong downtrend with
  strength 0.8 exactly when it is down, and it is never the oscillating one.
\<close>

theorem analyze_trend_of_identify_bi:
  "3 \<le> length (identify_bi high low close) \<Longrightarrow>
   ((trend (analyze_trend (identify_bi high low close)) = StrongUptrend \<and>
     strength (analyze_trend (identify_bi high low close)) = 0.8)
      = (bi_type (last (identify_bi high low close)) = Up)) \<and>
   ((trend (analyze_trend (identify_bi high low close)) = StrongDowntrend \<and>
     strength (analyze_trend (identify_bi high low close)) = 0.8)
      = (bi_type (last (identify_bi high low close)) = Down)) \<and>
   trend (analyze_trend (identify_bi high low close)) \<noteq> Oscillating"
  using analyze_trend_alternating [OF identify_bi_alternating, of high low close]
  by (cases "bi_type (last (identify_bi high low close))") simp_all

theorem analyze_trend_of_identify_bi_witness:
  "3 \<le> length (identify_bi [] [] [10, 11, 12, 11, 10, 11, 12, 11]) \<and>
   trend (analyze_trend (identify_bi [] [] [10, 11, 12, 11, 10, 11, 12, 11])) = StrongUptrend \<and>
   strength (analyze_trend (identify_bi [] [] [10, 11, 12, 11, 10, 11, 12, 11])) = 0.8 \<and>
   bi_type (last (identify_bi [] [] [10, 11, 12, 11, 10, 11, 12, 11])) = Up"
proof -
  have bis: "map bi_type (identify_bi [] [] [10, 11, 12, 11, 10, 11, 12, 11]) = [Up, Down, Up]"
    by (simp add: identify_bi_def bi_step_def upt_rec)
  have len: "3 \<le> length (identify_bi [] [] [10, 11, 12, 11, 10, 11, 12, 11])"
    using arg_cong [OF bis, of length] by simp
  have "identify_bi [] [] [10, 11, 12, 11, 10, 11, 12, 11] \<noteq> []"
    using len by auto
  then have "bi_type (last (identify_bi [] [] [10, 11, 12, 11, 10, 11, 12, 11])) = Up"
    using arg_cong [OF bis, of last] by (simp add: last_map)
  then show ?thesis
    using len analyze_trend_of_identify_bi [OF len] by simp
qed

subsection \<open>Direction and confidence\<close>

text \<open>
  Claim C6. The direction and the confidence of a recommendation depend on the total
  score alone: long and high above 65, long and medium above 55 up to 65, short and high
  below 35, short and medium from 35 to below 45, flat with no trade otherwise, that
  is from 45 to 55.
\<close>

theorem direction_thresholds:
  "(rec_direction (generate_recommendations round2 price sc ind fib),
    rec_confidence (generate_recommendations round2 price sc ind fib)) =
     (if total sc > 65 then (Long, High)
      else if 55 < total sc \<and> total sc \<le> 65 then (Long, Medium)
      else if total sc < 35 then (Short, High)
      else if 35 \<le> total sc \<and> total sc < 45 then (Short, Medium)
      else (Flat, NoTrade)) \<and>
   (rec_direction (generate_recommendations round2 price sc ind fib) = Flat)
     = (45 \<le> total sc \<and> total sc \<le> 55)"
  by (auto simp: generate_recommendations_def Let_def)

subsection \<open>The MA signal\<close>

lemma eq_sort_iff: "(xs = sort xs) = sorted (xs :: real list)"
  by (metis sorted_sort sorted_sort_id)

lemma eq_rev_sort_iff: "(xs = rev (sort xs)) = sorted_wrt (\<ge>) (xs :: real list)"
proof
  assume "xs = rev (sort xs)"
  then have "sorted_wrt (\<ge>) xs = sorted_wrt (\<ge>) (rev (sort xs))" by simp
  also have "\<dots> = sorted_wrt (\<le>) (sort xs)" by (simp add: sorted_wrt_rev)
  finally show "sorted_wrt (\<ge>) xs" by simp
next
  assume "sorted_wrt (\<ge>) xs"
  then have s: "sorted (rev xs)" by (simp add: sorted_wrt_rev)
  have m: "mset (rev xs) = mset xs" by simp
  have "sort xs = rev xs" using m s by (rule properties_for_sort)
  then show "xs = rev (sort xs)" by simp
qed

lemma ma_price_loop_sum:
  "ma_price_loop p s d =
   s + sum_list (map (\<lambda>v. if p > v then 1 else - 1) (ma_last_values d))"
  by (induction p s d rule: ma_price_loop.induct)
     (simp_all add: ma_last_values_def List.map_filter_simps split: option.splits)

text \<open>
  Claim C9, as the code has it. The score of the MA signal is \<open>+1\<close> for each moving
  average whose last value is below the price and \<open>-1\<close> for each whose last value is at
  or above it, plus an alignment term: \<open>+2\<close> when the last values, in the order of the
  periods, never increase; otherwise \<open>-2\<close> when they never decrease. The order is not
  strict: equal neighbours count as aligned, and when all the values are equal the
  bullish \<open>+2\<close> is awarded. The label follows from the score: strong-bull above 3, bull
  above 0, strong-bear below -3, bear below 0, neutral at 0.
\<close>

theorem analyze_ma_signal_score:
  "ma_score (analyze_ma_signal price ma_dict) =
     sum_list (map (\<lambda>v. if price > v then 1 else - 1) (ma_last_values ma_dict))
     + (if sorted_wrt (\<ge>) (ma_last_values ma_dict) then 2
        else if sorted_wrt (\<le>) (ma_last_values ma_dict) then - 2 else 0) \<and>
   ma_trend (analyze_ma_signal price ma_dict) =
     (if ma_score (analyze_ma_signal price ma_dict) > 3 then StrongBullish
      else if ma_score (analyze_ma_signal price ma_dict) > 0 then Bullish
      else if ma_score (analyze_ma_signal price ma_dict) < - 3 then StrongBearish
      else if ma_score (analyze_ma_signal price ma_dict) < 0 then Bearish
      else Neutral)"
  by (simp add: analyze_ma_signal_def Let_def ma_label_def eq_sort_iff eq_rev_sort_iff
      ma_price_loop_sum)

text \<open>A flat window of 30 candles at 100: the four moving averages all end at 100,
  which is not a strict order, the price is above none of them, and yet the score is
  \<open>-4 + 2\<close> and the label is bear, where the strict reading gives \<open>-4\<close> and
  strong-bear.\<close>

theorem analyze_ma_signal_flat_window:
  "ma_last_values (calculate_ma (replicate 30 100) [5, 10, 20, 30, 60]) = [100, 100, 100, 100] \<and>
   \<not> sorted_wrt (>) (ma_last_values (calculate_ma (replicate 30 100) [5, 10, 20, 30, 60])) \<and>
   \<not> sorted_wrt (<) (ma_last_values (calculate_ma (replicate 30 100) [5, 10, 20, 30, 60])) \<and>
   analyze_ma_signal 100 (calculate_ma (replicate 30 100) [5, 10, 20, 30, 60]) =
     \<lparr>ma_trend = Bearish, ma_score = - 2\<rparr>"
proof -
  have v: "ma_last_values (calculate_ma (replicate 30 100) [5, 10, 20, 30, 60])
           = [100, 100, 100, 100]"
    by code_simp
  have a: "analyze_ma_signal 100 (calculate_ma (replicate 30 100) [5, 10, 20, 30, 60]) =
     \<lparr>ma_trend = Bearish, ma_score = - 2\<rparr>"
    by code_simp
  show ?thesis unfolding v using a by simp
qed

subsection \<open>Rounding to two decimals\<close>

lemma nearest_cent_int:
  assumes "nearest_cent r x"
  obtains n :: int where "r = real_of_int n / 100" and "\<bar>real_of_int n / 100 - x\<bar> \<le> 1 / 200"
proof -
  have "r = real_of_int \<lfloor>r * 100\<rfloor> / 100"
    using assms by (simp add: nearest_cent_def)
  then show ?thesis
    using that [of "\<lfloor>r * 100\<rfloor>"] assms by (simp add: nearest_cent_def)
qed

text \<open>A multiple of \<open>1/100\<close> is the only multiple within \<open>1/200\<close> of itself, so every
  rounding leaves it unchanged.\<close>

lemma nearest_cent_exact:
  assumes "nearest_cent r (real_of_int k / 100)"
  shows "r = real_of_int k / 100"
proof -
  obtain n where n: "r = real_of_int n / 100"
      and d: "\<bar>real_of_int n / 100 - real_of_int k / 100\<bar> \<le> 1 / 200"
    using assms by (rule nearest_cent_int)
  have "\<bar>real_of_int (n - k)\<bar> \<le> 1 / 2" using d by (simp add: field_simps)
  then have "\<bar>n - k\<bar> < 1" by linarith
  then have "n = k" by simp
  then show ?thesis using n by simp
qed

lemma cent_rounding_exact:
  assumes "cent_rounding round2"
  shows "round2 (real_of_int k / 100) = real_of_int k / 100"
proof -
  have "nearest_cent (round2 (real_of_int k / 100)) (real_of_int k / 100)"
    using assms unfolding cent_rounding_def by blast
  then show ?thesis by (rule nearest_cent_exact)
qed



lemma cent_rounding_py_round2: "cent_rounding py_round2"
proof -
  have "nearest_cent (py_round2 x) x" for x
  proof -
    define f where "f = \<lfloor>x * 100\<rfloor>"
    define r where "r = x * 100 - real_of_int f"
    define g where "g = (if r < 1/2 then f else if 1/2 < r then f + 1
                         else if even f then f else f + 1)"
    have r: "0 \<le> r" "r < 1" unfolding r_def f_def by linarith+
    have val: "py_round2 x = real_of_int g / 100"
      by (simp add: py_round2_def Let_def g_def r_def f_def)
    have "\<bar>real_of_int g - x * 100\<bar> \<le> 1 / 2"
      using r unfolding g_def r_def by (auto split: if_splits)
    then have d: "\<bar>real_of_int g / 100 - x\<bar> \<le> 1 / 200" by (simp add: field_simps)
    have "real_of_int g / 100 * 100 = real_of_int \<lfloor>real_of_int g / 100 * 100\<rfloor>"
      by simp
    then show ?thesis using d unfolding val nearest_cent_def by blast
  qed
  then show ?thesis by (simp add: cent_rounding_def)
qed

subsection \<open>The composite score\<close>



lemma calculate_score_indicator:
  "calculate_score round2 ind fib el ch wy = Inr cs \<Longrightarrow>
   indicator_score cs = round2 (indicator_score_of ind)"
  by (cases "wyckoff_score_of wy") (auto simp: calculate_score_def Let_def)

text \<open>No rounding returns the exact indicator score of this input, 0.275: it is not a
  multiple of \<open>1/100\<close>.\<close>

lemma example_indicator_score_not_exact:
  assumes "cent_rounding round2"
    and "calculate_score round2 (example_indicators 0.5 1) fib el ch wy = Inr cs"
  shows "indicator_score cs \<noteq> indicator_score_of (example_indicators 0.5 1)"
proof
  assume e: "indicator_score cs = indicator_score_of (example_indicators 0.5 1)"
  have v: "indicator_score_of (example_indicators 0.5 1) = 275 / 1000"
    by (simp add: indicator_score_of_def example_indicators_def)
  have "nearest_cent (round2 (indicator_score_of (example_indicators 0.5 1)))
          (indicator_score_of (example_indicators 0.5 1))"
    using assms(1) unfolding cent_rounding_def by blast
  then have "nearest_cent (indicator_score cs) (indicator_score_of (example_indicators 0.5 1))"
    using calculate_score_indicator [OF assms(2)] by simp
  then have "nearest_cent (275 / 1000) (275 / 1000)"
    unfolding e v .
  then obtain n :: int where "275 / 1000 = real_of_int n / 100"
    by (rule nearest_cent_int)
  then have "real_of_int (2 * n) = real_of_int 55" by (simp add: field_simps)
  then have "2 * n = 55" by (simp only: of_int_eq_iff)
  then show False by presburger
qed



subsection \<open>Risk and reward\<close>

lemma py_truthy_iff: "py_truthy v = (v \<noteq> None \<and> v \<noteq> Some 0)"
  by (cases v) (simp_all add: py_truthy_def)

lemma generate_recommendations_levels:
  "rec_direction (generate_recommendations round2 price sc ind fib) \<noteq> Flat \<Longrightarrow>
   stop_loss (generate_recommendations round2 price sc ind fib) h \<noteq> None \<and>
   take_profit (generate_recommendations round2 price sc ind fib) h \<noteq> None"
  by (cases h) (auto simp: generate_recommendations_def Let_def split: if_splits)

lemma generate_recommendations_ratio:
  "risk_reward_ratio (generate_recommendations round2 price sc ind fib) =
   calculate_risk_reward round2 price
     (stop_loss (generate_recommendations round2 price sc ind fib))
     (take_profit (generate_recommendations round2 price sc ind fib))"
  by (simp add: generate_recommendations_def Let_def split: prod.splits)

text \<open>
  Claim C5, as the code has it. For a horizon \<open>h\<close>, the risk-reward ratio is null when
  the stop-loss or the take-profit level is null. When both levels are defined, and
  neither is \<open>0.0\<close>, it is \<open>|take_profit - price| / |price - stop_loss|\<close> rounded to two
  decimals (a multiple of \<open>1/100\<close> at distance at most \<open>1/200\<close> from the quotient) when
  the risk is not zero, and it is \<open>0\<close>, not null, when the risk is zero. In a
  recommendation, a flat direction makes the ratio of every horizon null; with a long
  or short direction the ratio is not null at a horizon whose two levels are not
  \<open>0.0\<close>.
\<close>

theorem risk_reward_characterised:
  "cent_rounding round2 \<Longrightarrow>
   (sl h = None \<or> tp h = None \<longrightarrow> calculate_risk_reward round2 price sl tp h = None) \<and>
   (\<forall>s t. sl h = Some s \<and> tp h = Some t \<and> s \<noteq> 0 \<and> t \<noteq> 0 \<longrightarrow>
      (\<exists>q. calculate_risk_reward round2 price sl tp h = Some q \<and>
           nearest_cent q (if price = s then 0 else \<bar>t - price\<bar> / \<bar>price - s\<bar>) \<and>
           (price = s \<longrightarrow> q = 0))) \<and>
   (rec_direction (generate_recommendations round2 price sc ind fib) = Flat \<longrightarrow>
      risk_reward_ratio (generate_recommendations round2 price sc ind fib) h = None) \<and>
   (rec_direction (generate_recommendations round2 price sc ind fib) \<noteq> Flat \<and>
    stop_loss (generate_recommendations round2 price sc ind fib) h \<noteq> Some 0 \<and>
    take_profit (generate_recommendations round2 price sc ind fib) h \<noteq> Some 0 \<longrightarrow>
      risk_reward_ratio (generate_recommendations round2 price sc ind fib) h \<noteq> None)"
proof -
  assume r: "cent_rounding round2"
  have near: "nearest_cent (round2 v) v" for v
    using r by (simp add: cent_rounding_def)
  have zero: "round2 0 = 0" using cent_rounding_exact [OF r, of 0] by simp
  have a: "sl h = None \<or> tp h = None \<longrightarrow> calculate_risk_reward round2 price sl tp h = None"
    by (auto simp: calculate_risk_reward_def Let_def py_truthy_iff)
  have b: "\<exists>q. calculate_risk_reward round2 price sl tp h = Some q \<and>
           nearest_cent q (if price = s then 0 else \<bar>t - price\<bar> / \<bar>price - s\<bar>) \<and>
           (price = s \<longrightarrow> q = 0)"
    if "sl h = Some s \<and> tp h = Some t \<and> s \<noteq> 0 \<and> t \<noteq> 0" for s t
  proof (cases "price = s")
    case True
    then have "calculate_risk_reward round2 price sl tp h = Some (round2 0)"
      using that by (simp add: calculate_risk_reward_def Let_def py_truthy_iff)
    then show ?thesis using True zero near [of 0] by simp
  next
    case False
    then have "calculate_risk_reward round2 price sl tp h
               = Some (round2 (\<bar>t - price\<bar> / \<bar>price - s\<bar>))"
      using that by (simp add: calculate_risk_reward_def Let_def py_truthy_iff)
    then show ?thesis using False near by simp
  qed
  let ?r = "generate_recommendations round2 price sc ind fib"
  have c: "rec_direction ?r = Flat \<longrightarrow> risk_reward_ratio ?r h = None"
    by (auto simp: generate_recommendations_def Let_def calculate_risk_reward_def
        py_truthy_def split: if_splits)
  have d: "rec_direction ?r \<noteq> Flat \<and> stop_loss ?r h \<noteq> Some 0 \<and> take_profit ?r h \<noteq> Some 0
           \<longrightarrow> risk_reward_ratio ?r h \<noteq> None"
    using generate_recommendations_levels [of round2 price sc ind fib h]
    unfolding generate_recommendations_ratio
    by (auto simp: calculate_risk_reward_def Let_def py_truthy_iff)
  show ?thesis using a b c d by blast
qed

text \<open>Zero volatility: the 15-minute stop-loss and take-profit both equal the price,
  the risk is zero, and the ratio is 0, not null.\<close>

theorem risk_reward_zero_risk:
  "rec_direction (generate_recommendations py_round2 100 (example_score 70)
      (example_indicators 0.5 0) example_fib) = Long \<and>
   stop_loss (generate_recommendations py_round2 100 (example_score 70)
      (example_indicators 0.5 0) example_fib) H15min = Some 100 \<and>
   take_profit (generate_recommendations py_round2 100 (example_score 70)
      (example_indicators 0.5 0) example_fib) H15min = Some 100 \<and>
   risk_reward_ratio (generate_recommendations py_round2 100 (example_score 70)
      (example_indicators 0.5 0) example_fib) H15min = Some 0"
  by code_simp

theorem risk_reward_characterised_witness:
  "cent_rounding py_round2 \<and>
   rec_direction (generate_recommendations py_round2 100 (example_score 70)
      (example_indicators 0.5 1) example_fib) = Long \<and>
   stop_loss (generate_recommendations py_round2 100 (example_score 70)
      (example_indicators 0.5 1) example_fib) H1h = Some 98 \<and>
   take_profit (generate_recommendations py_round2 100 (example_score 70)
      (example_indicators 0.5 1) example_fib) H1h = Some 103 \<and>
   risk_reward_ratio (generate_recommendations py_round2 100 (example_score 70)
      (example_indicators 0.5 1) example_fib) H1h = Some 1.5 \<and>
   nearest_cent 1.5 (\<bar>103 - 100\<bar> / \<bar>100 - 98\<bar>) \<and>
   rec_direction (generate_recommendations py_round2 100 (example_score 50)
      (example_indicators 0.5 1) example_fib) = Flat \<and>
   risk_reward_ratio (generate_recommendations py_round2 100 (example_score 50)
      (example_indicators 0.5 1) example_fib) H1h = None"
proof -
  let ?r = "generate_recommendations py_round2 100 (example_score 70)
              (example_indicators 0.5 1) example_fib"
  let ?f = "generate_recommendations py_round2 100 (example_score 50)
              (example_indicators 0.5 1) example_fib"
  note c = risk_reward_characterised [OF cent_rounding_py_round2]
  have d: "rec_direction ?r = Long" by code_simp
  have s: "stop_loss ?r H1h = Some 98" by code_simp
  have t: "take_profit ?r H1h = Some 103" by code_simp
  have q: "risk_reward_ratio ?r H1h = Some 1.5" by code_simp
  have f: "rec_direction ?f = Flat" by code_simp
  have "\<exists>q. calculate_risk_reward py_round2 100 (stop_loss ?r) (take_profit ?r) H1h = Some q \<and>
          nearest_cent q (if (100::real) = 98 then 0 else \<bar>103 - 100\<bar> / \<bar>100 - 98\<bar>) \<and>
          ((100::real) = 98 \<longrightarrow> q = 0)"
    using c [where price = 100 and sl = "stop_loss ?r" and tp = "take_profit ?r" and h = H1h]
      s t by simp
  then obtain q' where q': "calculate_risk_reward py_round2 100 (stop_loss ?r)
          (take_profit ?r) H1h = Some q'"
      "nearest_cent q' (if (100::real) = 98 then 0 else \<bar>103 - 100\<bar> / \<bar>100 - 98\<bar>)"
    by blast
  have e: "q' = 3 / 2" using q q'(1) unfolding generate_recommendations_ratio by simp
  have n: "nearest_cent 1.5 (\<bar>103 - 100\<bar> / \<bar>100 - 98\<bar>)"
    using q'(2) unfolding e by simp
  have z: "risk_reward_ratio ?f H1h = None"
    using c [where price = 100 and sc = "example_score 50"
        and ind = "example_indicators 0.5 1" and fib = example_fib and h = H1h] f
    by blast
  show ?thesis using cent_rounding_py_round2 d s t q n f z by blast
qed

subsection \<open>Stop-loss and take-profit\<close>

lemma find_support_resistance_sides:
  "list_all (\<lambda>s. s < price) (support (find_support_resistance price high low)) \<and>
   list_all (\<lambda>r. price \<le> r) (resistance (find_support_resistance price high low))"
  by (simp add: find_support_resistance_def Let_def list_all_iff not_less)










subsection \<open>Zero denominators\<close>

lemma kdj_rsv_flat: "kdj_rsv close i v v = Inr 50"
  by (simp add: kdj_rsv_def)

lemma rsi_at_no_loss:
  "np_mean (py_slice losses (i + 1 - period) (i + 1)) = 0 \<Longrightarrow>
   rsi_at gains losses period i = 100"
  by (simp add: rsi_at_def)

lemma identify_phase_zero_first_price:
  "10 \<le> length prices \<Longrightarrow> 10 \<le> length volumes \<Longrightarrow> prices ! 0 = 0 \<Longrightarrow>
   identify_phase prices volumes = Inl ZeroDivisionError"
  by (simp add: identify_phase_def py_div_def)

text \<open>
  Claim C7. In KDJ a window whose highest high equals its lowest low gives RSV = 50; in
  RSI an average loss of 0 gives 100. The Wyckoff phase classifier has no such guard:
  with a first price of 0 (and at least 10 prices and volumes) the quotient
  \<open>(prices[-1] - prices[0]) / prices[0]\<close> raises \<open>ZeroDivisionError\<close>, where the claim
  promises a fallback branch.
\<close>

theorem zero_denominators:
  "kdj_rsv close i v v = Inr 50 \<and>
   (np_mean (py_slice losses (j + 1 - period) (j + 1)) = 0 \<longrightarrow>
      rsi_at gains losses period j = 100) \<and>
   (10 \<le> length prices \<and> 10 \<le> length volumes \<and> prices ! 0 = 0 \<longrightarrow>
      identify_phase prices volumes = Inl ZeroDivisionError)"
  using kdj_rsv_flat rsi_at_no_loss identify_phase_zero_first_price by blast

text \<open>A zero average volume in the first half does not raise: the quotient of numpy
  floats is evaluated, it is infinite, and the window is classified as a markup on an
  infinite volume change.\<close>

lemma identify_phase_zero_early_volume:
  "identify_phase [100, 101, 102, 103, 104, 105, 106, 107, 108, 109]
     [0, 0, 0, 0, 0, 7, 7, 7, 7, 7] =
   Inr \<lparr>wy_phase = Markup, wy_action = HoldLong, price_change = Some 0.09,
        volume_change = Some PosInf\<rparr>"
  by code_simp

lemma kdj_flat: "calculate_kdj (replicate 9 100) (replicate 9 100) (replicate 9 100) 9 3 3 = Inr \<lparr>K = [50], D = [50], J = [50]\<rparr>"
  by code_simp

lemma rsi_flat: "calculate_rsi (replicate 15 100) 14 = [100]"
  by code_simp

theorem zero_denominators_witness:
  "kdj_rsv (replicate 9 100) 8 100 100 = Inr 50 \<and>
   np_mean (py_slice (replicate 14 0) (13 + 1 - 14) (13 + 1)) = 0 \<and>
   rsi_at (replicate 14 0) (replicate 14 0) 14 13 = 100 \<and>
   10 \<le> length [0, 1, 2, 3, 4, 5, 6, 7, 8, 9 :: real] \<and>
   10 \<le> length [5, 5, 5, 5, 5, 5, 5, 5, 5, 5 :: real] \<and>
   [0, 1, 2, 3, 4, 5, 6, 7, 8, 9 :: real] ! 0 = 0 \<and>
   identify_phase [0, 1, 2, 3, 4, 5, 6, 7, 8, 9] [5, 5, 5, 5, 5, 5, 5, 5, 5, 5]
     = Inl ZeroDivisionError"
proof -
  have m: "np_mean (py_slice (replicate 14 0) (13 + 1 - 14) (13 + 1)) = 0"
    by code_simp
  have l: "10 \<le> length [0, 1, 2, 3, 4, 5, 6, 7, 8, 9 :: real] \<and>
           10 \<le> length [5, 5, 5, 5, 5, 5, 5, 5, 5, 5 :: real] \<and>
           [0, 1, 2, 3, 4, 5, 6, 7, 8, 9 :: real] ! 0 = 0"
    by simp
  show ?thesis
    using m l zero_denominators [where close = "replicate 9 100" and i = 8 and v = 100
        and losses = "replicate 14 0" and gains = "replicate 14 0" and period = 14
        and j = 13 and prices = "[0, 1, 2, 3, 4, 5, 6, 7, 8, 9]"
        and volumes = "[5, 5, 5, 5, 5, 5, 5, 5, 5, 5]"]
    by blast
qed

subsection \<open>The top-level analysis\<close>

lemma py_get_last: "xs \<noteq> [] \<Longrightarrow> py_get xs (- 1) = Inr (last xs)"
  by (cases xs rule: rev_cases) (simp_all add: py_get_def nth_append)

lemma analyze_indicators_raises:
  assumes "26 \<le> length closes" "length closes \<le> 33"
  shows "analyze_indicators closes highs lows volumes = Inl IndexError"
proof -
  have "closes \<noteq> []" using assms by auto
  then have "py_get closes (- 1) = Inr (last closes)" by (rule py_get_last)
  then show ?thesis
    using calculate_macd_raises [OF assms] by (simp add: analyze_indicators_def Let_def)
qed

lemma analyze_comprehensive_short:
  "length klines < 30 \<Longrightarrow> analyze_comprehensive round2 klines = Inr InsufficientData"
  by (simp add: analyze_comprehensive_def)

lemma analyze_comprehensive_not_insufficient:
  "30 \<le> length klines \<Longrightarrow> analyze_comprehensive round2 klines \<noteq> Inr InsufficientData"
  by (auto simp: analyze_comprehensive_def Let_def bind_err_def split: sum.splits)

text \<open>Each stage of the pipeline returns once the window has 35 candles: the three
  MACD series are then long enough for every read of the signal evaluator, and the
  series of highs, lows and closes have one length.\<close>

lemma py_get_neg:
  "0 < k \<Longrightarrow> k \<le> length xs \<Longrightarrow> py_get xs (- int k) = Inr (xs ! (length xs - k))"
  by (auto simp: py_get_def nat_diff_distrib' of_nat_diff)

lemma py_get_m1: "xs \<noteq> [] \<Longrightarrow> \<exists>x. py_get xs (- 1) = Inr x"
  using py_get_neg [of 1 xs] by (cases xs) auto

lemma py_get_m2: "2 \<le> length xs \<Longrightarrow> \<exists>x. py_get xs (- 2) = Inr x"
  using py_get_neg [of 2 xs] by auto

lemma analyze_macd_signal_returns:
  assumes "DIF m \<noteq> []" "2 \<le> length (DEA m)" "MACD m \<noteq> []"
  shows "\<exists>s. analyze_macd_signal m = Inr s"
proof -
  obtain b where b: "py_get (MACD m) (- 1) = Inr b" using py_get_m1 [OF assms(3)] by blast
  obtain e2 where e2: "py_get (DEA m) (- 2) = Inr e2" using py_get_m2 [OF assms(2)] by blast
  have ne: "DEA m \<noteq> []" using assms(2) by auto
  show ?thesis
  proof (cases "2 \<le> length (DIF m)")
    case True
    then obtain d2 where d2: "py_get (DIF m) (- 2) = Inr d2" using py_get_m2 by blast
    show ?thesis using assms(1) ne b e2 d2 True
      by (simp add: analyze_macd_signal_def Let_def)
  next
    case False
    then show ?thesis using assms(1) ne b
      by (simp add: analyze_macd_signal_def Let_def)
  qed
qed

lemma analyze_kdj_signal_returns:
  assumes "length (D k) = length (K k)" "length (J k) = length (K k)"
  shows "\<exists>s. analyze_kdj_signal k = Inr s"
proof (cases "K k = []")
  case True
  then show ?thesis by (simp add: analyze_kdj_signal_def)
next
  case False
  then have "D k \<noteq> []" "J k \<noteq> []" using assms by auto
  then obtain d j where d: "py_get (D k) (- 1) = Inr d" and j: "py_get (J k) (- 1) = Inr j"
    using py_get_m1 by blast
  show ?thesis
  proof (cases "2 \<le> length (K k)")
    case True
    then obtain k2 d2 where "py_get (K k) (- 2) = Inr k2" "py_get (D k) (- 2) = Inr d2"
      using py_get_m2 [of "K k"] py_get_m2 [of "D k"] assms by auto
    then show ?thesis using False d j True
      by (simp add: analyze_kdj_signal_def Let_def)
  next
    case F2: False
    then show ?thesis using False d j
      by (simp add: analyze_kdj_signal_def Let_def)
  qed
qed

lemma analyze_boll_signal_returns:
  "\<exists>s. analyze_boll_signal p (calculate_boll prices period sd) = Inr s"
proof (cases "MIDDLE (calculate_boll prices period sd) = []")
  case True
  then show ?thesis by (simp add: analyze_boll_signal_def)
next
  case False
  then have "UPPER (calculate_boll prices period sd) \<noteq> []"
            "LOWER (calculate_boll prices period sd) \<noteq> []"
    by (auto simp: calculate_boll_def Let_def split: if_splits)
  then obtain u l where "py_get (UPPER (calculate_boll prices period sd)) (- 1) = Inr u"
     "py_get (LOWER (calculate_boll prices period sd)) (- 1) = Inr l"
    using py_get_m1 by blast
  then show ?thesis using False by (simp add: analyze_boll_signal_def Let_def)
qed

lemma py_slice_nonempty: "a < b \<Longrightarrow> a < length xs \<Longrightarrow> py_slice xs a b \<noteq> []"
  by (simp add: py_slice_def)

lemma py_max_returns: "xs \<noteq> [] \<Longrightarrow> \<exists>x. py_max xs = Inr x"
  by (cases xs) (simp_all add: py_max_def)

lemma py_min_returns: "xs \<noteq> [] \<Longrightarrow> \<exists>x. py_min xs = Inr x"
  by (cases xs) (simp_all add: py_min_def)

lemma kdj_rsv_returns: "i < length close \<Longrightarrow> \<exists>r. kdj_rsv close i h l = Inr r"
  by (simp add: kdj_rsv_def py_get_in_range)

lemma kdj_loop_returns:
  assumes "0 < n" "m1 \<noteq> 0" "m2 \<noteq> 0"
    and "\<forall>i\<in>set is. i < length high \<and> i < length low \<and> i < length close"
  shows "\<exists>r. kdj_loop high low close n m1 m2 k d is = Inr r \<and> length r = length is"
  using assms(4)
proof (induction "is" arbitrary: k d)
  case Nil
  then show ?case by simp
next
  case (Cons i "is")
  have i: "i < length high" "i < length low" "i < length close" using Cons.prems by auto
  have "i + 1 - n < i + 1" using assms(1) by simp
  moreover have "i + 1 - n < length high" "i + 1 - n < length low" using i assms(1) by auto
  ultimately have "py_slice high (i + 1 - n) (i + 1) \<noteq> []" "py_slice low (i + 1 - n) (i + 1) \<noteq> []"
    by (simp_all add: py_slice_nonempty)
  then obtain h l where h: "py_max (py_slice high (i + 1 - n) (i + 1)) = Inr h"
      and l: "py_min (py_slice low (i + 1 - n) (i + 1)) = Inr l"
    using py_max_returns py_min_returns by blast
  obtain rsv where rsv: "kdj_rsv close i h l = Inr rsv" using kdj_rsv_returns [OF i(3)] by blast
  define k' where "k' = (rsv + (real m1 - 1) * k) / real m1"
  define d' where "d' = (k' + (real m2 - 1) * d) / real m2"
  obtain r where r: "kdj_loop high low close n m1 m2 k' d' is = Inr r" "length r = length is"
    using Cons.IH [of k' d'] Cons.prems by auto
  show ?case
    using h l rsv r assms(2,3) by (simp add: py_div_def Let_def k'_def d'_def)
qed

lemma calculate_kdj_returns:
  assumes "length high = length close" "length low = length close"
  shows "\<exists>r. calculate_kdj high low close 9 3 3 = Inr r \<and> length (D r) = length (K r)
            \<and> length (J r) = length (K r)"
proof (cases "length close < 9")
  case True
  then show ?thesis by (simp add: calculate_kdj_def)
next
  case False
  have "\<exists>r. kdj_loop high low close 9 3 3 50 50 [9 - 1..<length close] = Inr r
             \<and> length r = length [9 - 1..<length close]"
    using assms by (intro kdj_loop_returns) auto
  then obtain r where "kdj_loop high low close 9 3 3 50 50 [9 - 1..<length close] = Inr r"
    by blast
  then show ?thesis using False by (simp add: calculate_kdj_def)
qed

lemma tr_loop_returns:
  assumes "\<forall>i\<in>set is. 0 < i \<and> i < length high \<and> i < length low \<and> i < length close"
  shows "\<exists>r. tr_loop high low close is = Inr r"
  using assms
proof (induction "is")
  case Nil
  then show ?case by simp
next
  case (Cons i "is")
  have i: "0 < i" "i < length high" "i < length low" "i < length close" using Cons.prems by auto
  have c: "py_get close (int i - 1) = Inr (close ! (i - 1))"
    using py_get_in_range [of "i - 1" close] i by (simp add: of_nat_diff)
  obtain r where "tr_loop high low close is = Inr r" using Cons by auto
  then show ?case using i c by (simp add: py_get_in_range Let_def)
qed

lemma calculate_atr_returns:
  assumes "length high = length close" "length low = length close"
  shows "\<exists>r. calculate_atr high low close 14 = Inr r"
proof (cases "length close < 14 + 1")
  case True
  then show ?thesis by (simp add: calculate_atr_def)
next
  case False
  have "\<exists>r. tr_loop high low close [1..<length close] = Inr r"
    using assms by (intro tr_loop_returns) auto
  then obtain r where "tr_loop high low close [1..<length close] = Inr r" by blast
  then show ?thesis using False by (simp add: calculate_atr_def)
qed

lemma analyze_indicators_returns:
  assumes "35 \<le> length closes" "length highs = length closes" "length lows = length closes"
  shows "\<exists>r. analyze_indicators closes highs lows volumes = Inr r"
proof -
  have "closes \<noteq> []" using assms(1) by auto
  then have p: "py_get closes (- 1) = Inr (last closes)" by (rule py_get_last)
  have "34 \<le> length closes" using assms(1) by simp
  note m = calculate_macd_ok [OF this]
  let ?m = "\<lparr>DIF = macd_dif closes, DEA = calculate_ema (macd_dif closes) 9,
         MACD = map (\<lambda>i. (macd_dif closes ! (i + 8) - calculate_ema (macd_dif closes) 9 ! i) * 2)
                  [0..<length closes - 33]\<rparr>"
  have "DIF ?m \<noteq> []" "2 \<le> length (DEA ?m)" "MACD ?m \<noteq> []"
    using assms(1) by (auto simp: length_0_conv [symmetric] simp del: length_0_conv)
  then obtain ms where ms: "analyze_macd_signal ?m = Inr ms"
    using analyze_macd_signal_returns by blast
  obtain k where k: "calculate_kdj highs lows closes 9 3 3 = Inr k"
      "length (D k) = length (K k)" "length (J k) = length (K k)"
    using calculate_kdj_returns [OF assms(2,3)] by blast
  obtain ks where ks: "analyze_kdj_signal k = Inr ks"
    using analyze_kdj_signal_returns [OF k(2,3)] by blast
  obtain bs where bs: "analyze_boll_signal (last closes) (calculate_boll closes 20 2) = Inr bs"
    using analyze_boll_signal_returns by blast
  obtain a where a: "calculate_atr highs lows closes 14 = Inr a"
    using calculate_atr_returns [OF assms(2,3)] by blast
  show ?thesis
    using p m ms k(1) ks bs a by (simp add: analyze_indicators_def Let_def)
qed

lemma py_last_n_nonempty: "xs \<noteq> [] \<Longrightarrow> 0 < k \<Longrightarrow> py_last_n k xs \<noteq> []"
  by (cases xs) (auto simp: py_last_n_def)

lemma analyze_fibonacci_returns:
  assumes "highs \<noteq> []" "lows \<noteq> []"
  shows "\<exists>r. analyze_fibonacci closes highs lows p = Inr r"
proof -
  obtain h where h: "py_max (py_last_n 20 highs) = Inr h"
    using py_max_returns [OF py_last_n_nonempty [OF assms(1)], of 20] by auto
  obtain l where l: "py_min (py_last_n 20 lows) = Inr l"
    using py_min_returns [OF py_last_n_nonempty [OF assms(2)], of 20] by auto
  show ?thesis using h l by (simp add: analyze_fibonacci_def Let_def)
qed

lemma identify_phase_returns:
  "prices ! 0 \<noteq> 0 \<Longrightarrow> \<exists>r. identify_phase prices volumes = Inr r"
  by (simp add: identify_phase_def py_div_def Let_def split: prod.splits)

lemma analyze_supply_demand_returns:
  assumes "5 \<le> length prices" "volumes \<noteq> []"
  shows "\<exists>r t. analyze_supply_demand prices volumes = Inr r \<and> sd_trend r = Some t"
proof -
  obtain v where v: "py_get (py_last_n 5 volumes) (- 1) = Inr v"
    using py_get_m1 [OF py_last_n_nonempty [OF assms(2)], of 5] by auto
  show ?thesis using assms(1) v
    by (simp add: analyze_supply_demand_def Let_def split: prod.splits)
qed

lemma analyze_wyckoff_returns:
  assumes "5 \<le> length closes" "volumes \<noteq> []" "closes ! 0 \<noteq> 0"
  shows "\<exists>r t. analyze_wyckoff closes volumes = Inr r \<and> sd_trend (wy_supply_demand r) = Some t"
proof -
  obtain ph where ph: "identify_phase closes volumes = Inr ph"
    using identify_phase_returns [OF assms(3)] by blast
  obtain sd t where sd: "analyze_supply_demand closes volumes = Inr sd" "sd_trend sd = Some t"
    using analyze_supply_demand_returns [OF assms(1,2)] by blast
  show ?thesis using ph sd by (simp add: analyze_wyckoff_def)
qed

lemma calculate_score_returns:
  "sd_trend (wy_supply_demand wy) = Some t \<Longrightarrow> \<exists>r. calculate_score round2 ind fib el ch wy = Inr r"
  by (simp add: calculate_score_def wyckoff_score_of_def Let_def)

lemma analyze_comprehensive_returns:
  assumes "35 \<le> length klines" "c_close (klines ! 0) \<noteq> 0"
  shows "\<exists>a. analyze_comprehensive round2 klines = Inr (Analysis a)"
proof -
  let ?c = "map c_close klines" and ?h = "map c_high klines"
  and ?l = "map c_low klines" and ?v = "map c_volume klines"
  have ne: "klines \<noteq> []" using assms(1) by auto
  then have p: "py_get ?c (- 1) = Inr (last ?c)" by (intro py_get_last) simp
  obtain ind where ind: "analyze_indicators ?c ?h ?l ?v = Inr ind"
    using analyze_indicators_returns [of ?c ?h ?l ?v] assms(1) by auto
  obtain fib where fib: "analyze_fibonacci ?c ?h ?l (last ?c) = Inr fib"
    using analyze_fibonacci_returns [of ?h ?l ?c "last ?c"] ne by auto
  have "?c ! 0 \<noteq> 0" using assms ne by simp
  then obtain wy t where wy: "analyze_wyckoff ?c ?v = Inr wy"
      "sd_trend (wy_supply_demand wy) = Some t"
    using analyze_wyckoff_returns [of ?c ?v] assms(1) ne by auto
  obtain sc where sc: "calculate_score round2 ind fib (analyze_elliott ?c) (analyze_chan ?h ?l ?c) wy = Inr sc"
    using calculate_score_returns [OF wy(2)] by blast
  show ?thesis
    using assms(1) p ind fib wy(1) sc by (simp add: analyze_comprehensive_def Let_def)
qed

text \<open>With 34 candles \<open>calculate_macd\<close> returns, with a DEA series of one value, and
  the crossover test of \<open>_analyze_macd_signal\<close> reads \<open>macd["DEA"][-2]\<close> as soon as the
  last DIF differs from that value.\<close>

lemma py_get_m2_short: "length xs = 1 \<Longrightarrow> py_get xs (- 2) = Inl IndexError"
  by (simp add: py_get_def)

lemma analyze_macd_signal_raises:
  assumes "2 \<le> length (DIF m)" "length (DEA m) = 1" "MACD m \<noteq> []"
    and "last (DIF m) \<noteq> last (DEA m)"
  shows "analyze_macd_signal m = Inl IndexError"
proof -
  obtain b where b: "py_get (MACD m) (- 1) = Inr b" using py_get_m1 [OF assms(3)] by blast
  obtain d2 where d2: "py_get (DIF m) (- 2) = Inr d2" using py_get_m2 [OF assms(1)] by blast
  have e2: "py_get (DEA m) (- 2) = Inl IndexError" using assms(2) by (rule py_get_m2_short)
  have ne: "DIF m \<noteq> []" "DEA m \<noteq> []" using assms(1,2) by auto
  show ?thesis
    using assms(1,4) ne b d2 e2 by (auto simp: analyze_macd_signal_def Let_def)
qed

lemma calculate_ema_short:
  "length xs \<le> period \<Longrightarrow> calculate_ema xs period = [np_mean xs]"
  by (simp add: calculate_ema_def Let_def)

lemma analyze_indicators_34:
  assumes "length closes = 34" "last (macd_dif closes) \<noteq> np_mean (macd_dif closes)"
  shows "analyze_indicators closes highs lows volumes = Inl IndexError"
proof -
  have "closes \<noteq> []" using assms(1) by auto
  then have p: "py_get closes (- 1) = Inr (last closes)" by (rule py_get_last)
  have "34 \<le> length closes" using assms(1) by simp
  note m = calculate_macd_ok [OF this]
  have dea: "calculate_ema (macd_dif closes) 9 = [np_mean (macd_dif closes)]"
    using assms(1) by (intro calculate_ema_short) simp
  let ?m = "\<lparr>DIF = macd_dif closes, DEA = calculate_ema (macd_dif closes) 9,
         MACD = map (\<lambda>i. (macd_dif closes ! (i + 8) - calculate_ema (macd_dif closes) 9 ! i) * 2)
                  [0..<length closes - 33]\<rparr>"
  have "analyze_macd_signal ?m = Inl IndexError"
    using assms dea by (intro analyze_macd_signal_raises) simp_all
  then show ?thesis using p m by (simp add: analyze_indicators_def Let_def)
qed

lemma analyze_comprehensive_34:
  assumes "length klines = 34"
    and "last (macd_dif (map c_close klines)) \<noteq> np_mean (macd_dif (map c_close klines))"
  shows "analyze_comprehensive round2 klines = Inl IndexError"
proof -
  have "map c_close klines \<noteq> []" using assms(1) by auto
  then have "py_get (map c_close klines) (- 1) = Inr (last (map c_close klines))"
    by (rule py_get_last)
  moreover have "analyze_indicators (map c_close klines) (map c_high klines)
        (map c_low klines) (map c_volume klines) = Inl IndexError"
    using assms by (intro analyze_indicators_34) simp_all
  ultimately show ?thesis
    using assms(1) by (simp add: analyze_comprehensive_def Let_def)
qed

lemma analyze_comprehensive_zero_first_close:
  assumes "35 \<le> length klines" "c_close (klines ! 0) = 0"
  shows "analyze_comprehensive round2 klines = Inl ZeroDivisionError"
proof -
  let ?c = "map c_close klines" and ?h = "map c_high klines"
  and ?l = "map c_low klines" and ?v = "map c_volume klines"
  have ne: "klines \<noteq> []" using assms(1) by auto
  then have p: "py_get ?c (- 1) = Inr (last ?c)" by (intro py_get_last) simp
  obtain ind where ind: "analyze_indicators ?c ?h ?l ?v = Inr ind"
    using analyze_indicators_returns [of ?c ?h ?l ?v] assms(1) by auto
  obtain fib where fib: "analyze_fibonacci ?c ?h ?l (last ?c) = Inr fib"
    using analyze_fibonacci_returns [of ?h ?l ?c "last ?c"] ne by auto
  have "?c ! 0 = 0" using assms ne by simp
  then have "identify_phase ?c ?v = Inl ZeroDivisionError"
    using assms(1) by (intro identify_phase_zero_first_price) simp_all
  then have wy: "analyze_wyckoff ?c ?v = Inl ZeroDivisionError"
    by (simp add: analyze_wyckoff_def)
  show ?thesis
    using assms(1) p ind fib wy by (simp add: analyze_comprehensive_def Let_def)
qed

text \<open>
  Claim C2. \<open>analyze_comprehensive\<close> returns the insufficient-data result exactly
  when the window has fewer than 30 candles. The claim promises a full analysis for
  every window of at least 30 candles; for a window of 30 to 33 candles the call raises
  \<open>IndexError\<close> instead, out of \<open>calculate_macd\<close>. From 35 candles on it returns the
  full analysis when the first close is not zero, and raises \<open>ZeroDivisionError\<close>, out
  of the Wyckoff phase classifier, when it is.
\<close>

theorem analyze_comprehensive_window:
  "((analyze_comprehensive round2 klines = Inr InsufficientData) = (length klines < 30)) \<and>
   (30 \<le> length klines \<and> length klines \<le> 33 \<longrightarrow>
      analyze_comprehensive round2 klines = Inl IndexError) \<and>
   (35 \<le> length klines \<and> c_close (klines ! 0) \<noteq> 0 \<longrightarrow>
      (\<exists>a. analyze_comprehensive round2 klines = Inr (Analysis a))) \<and>
   (35 \<le> length klines \<and> c_close (klines ! 0) = 0 \<longrightarrow>
      analyze_comprehensive round2 klines = Inl ZeroDivisionError)"
proof -
  have a: "(analyze_comprehensive round2 klines = Inr InsufficientData) = (length klines < 30)"
    using analyze_comprehensive_short [of klines round2]
      analyze_comprehensive_not_insufficient [of klines round2] by fastforce
  have b: "analyze_comprehensive round2 klines = Inl IndexError"
    if "30 \<le> length klines" "length klines \<le> 33"
  proof -
    have "map c_close klines \<noteq> []" using that by auto
    then have "py_get (map c_close klines) (- 1) = Inr (last (map c_close klines))"
      by (rule py_get_last)
    moreover have "analyze_indicators (map c_close klines) (map c_high klines)
        (map c_low klines) (map c_volume klines) = Inl IndexError"
      using that by (intro analyze_indicators_raises) simp_all
    ultimately show ?thesis
      using that by (simp add: analyze_comprehensive_def Let_def)
  qed
  show ?thesis
    using a b analyze_comprehensive_returns [of klines round2]
      analyze_comprehensive_zero_first_close [of klines round2]
    by blast
qed

theorem analyze_comprehensive_window_witness:
  "analyze_comprehensive py_round2 (replicate 30 flat_candle) = Inl IndexError \<and>
   (\<exists>a. analyze_comprehensive py_round2 (replicate 35 flat_candle) = Inr (Analysis a)) \<and>
   analyze_comprehensive py_round2 (zero_close_candle # replicate 34 flat_candle)
     = Inl ZeroDivisionError"
proof -
  have 1: "analyze_comprehensive py_round2 (replicate 30 flat_candle) = Inl IndexError"
    using analyze_comprehensive_window [of py_round2 "replicate 30 flat_candle"] by simp
  have 2: "\<exists>a. analyze_comprehensive py_round2 (replicate 35 flat_candle) = Inr (Analysis a)"
    using analyze_comprehensive_window [of py_round2 "replicate 35 flat_candle"]
    by (simp add: flat_candle_def)
  have 3: "analyze_comprehensive py_round2 (zero_close_candle # replicate 34 flat_candle)
     = Inl ZeroDivisionError"
    using analyze_comprehensive_window [of py_round2 "zero_close_candle # replicate 34 flat_candle"]
    by (simp add: zero_close_candle_def)
  show ?thesis using 1 2 3 by blast
qed

end
